theory Spec2Isabelle
  imports Main "HOL-Library.Word"
begin

section \<open>NGC license server: the embedding of app.py\<close>

text \<open>
  The handlers of \<^verbatim>\<open>app.py\<close> are modelled as functions from the database, the request
  and the readings of the clock to the HTTP response and the database after the call.

  \<^item> A calendar day is an integer, the ordinal of the day as \<^verbatim>\<open>date.toordinal()\<close> counts it:
    day 1 is 0001-01-01, day 364878 is 1000-01-01, day 3652059 is 9999-12-31. A naive local
    date-time is the number of microseconds since midnight of day 0. A TEXT column that holds
    the \<^verbatim>\<open>%Y-%m-%d\<close> rendering of a day is represented by that day, one that holds an
    \<^verbatim>\<open>isoformat()\<close> rendering by that date-time.
  \<^item> Each call of \<^verbatim>\<open>datetime.now()\<close> inside one request is a separate reading of the clock:
    the handlers take \<open>now :: nat \<Rightarrow> datetime\<close>, where \<open>now i\<close> is what the \<open>i\<close>-th call
    returns (counted from 0 along the executed path).
  \<^item> A table is the list of its rows in insertion order; \<^verbatim>\<open>SELECT ... WHERE license_key = ?\<close>
    followed by \<^verbatim>\<open>fetchone()\<close> is \<open>find\<close>, \<^verbatim>\<open>UPDATE ... WHERE\<close> maps over the rows, and
    \<^verbatim>\<open>INSERT\<close> into \<^verbatim>\<open>licenses\<close> raises \<^verbatim>\<open>IntegrityError\<close> on a key that is present
    (\<^verbatim>\<open>license_key TEXT PRIMARY KEY\<close>).
  \<^item> JSON bodies are objects whose fields, when present, have the types the docstrings of the
    handlers give (strings, integers of any size); a field that is absent is \<open>None\<close> and takes
    the default of \<^verbatim>\<open>data.get\<close>. Text is ASCII.
  \<^item> The exceptions of the modelled paths are values of the type \<open>error\<close>: the
    \<^verbatim>\<open>OverflowError\<close> of \<^verbatim>\<open>timedelta\<close>, of the date arithmetic and of an integer that SQLite
    cannot store, the \<^verbatim>\<open>IntegrityError\<close> of the insert, the \<^verbatim>\<open>ValueError\<close> of
    \<^verbatim>\<open>strptime\<close>. Each handler catches them in its \<^verbatim>\<open>except Exception\<close> and answers with
    status 500; nothing was committed at that point, so the database is the one before the call.
  \<^item> \<^verbatim>\<open>/activate\<close> reads with one statement and writes with another, on a connection of its
    own. The two halves are separate functions, so that calls that overlap can be interleaved.
\<close>

subsection \<open>Dates and times\<close>

type_synonym date = int
type_synonym datetime = int

definition usec_per_day :: int where
  "usec_per_day = 86400000000"

datatype error = IntegrityError | OverflowError | ValueError

text \<open>\<^verbatim>\<open>datetime.min\<close> and \<^verbatim>\<open>datetime.max\<close>: the first instant of year 1, the last of year 9999.\<close>

definition datetime_min :: datetime where
  "datetime_min = 1 * usec_per_day"

definition datetime_max :: datetime where
  "datetime_max = 3652060 * usec_per_day - 1"

text \<open>\<^verbatim>\<open>t.strftime('%Y-%m-%d')\<close>: the day of a date-time.\<close>

definition strftime :: "datetime \<Rightarrow> date" where
  "strftime t = t div usec_per_day"

text \<open>
  The days of the years 1000 to 9999. The C library renders \<^verbatim>\<open>%Y\<close> without padding, so
  the text of an earlier day has a year of fewer than four digits (929-11-03).
\<close>

definition four_digit_year :: "date \<Rightarrow> bool" where
  "four_digit_year d = (364878 \<le> d \<and> d \<le> 3652059)"

text \<open>
  \<^verbatim>\<open>datetime.strptime(s, '%Y-%m-%d')\<close> on the text of a day: midnight of the day. \<^verbatim>\<open>%Y\<close>
  matches four digits only; on the text of any other day the call raises \<^verbatim>\<open>ValueError\<close>.
\<close>

definition strptime :: "date \<Rightarrow> error + datetime" where
  "strptime d = (if four_digit_year d then Inr (d * usec_per_day) else Inl ValueError)"

text \<open>
  \<^verbatim>\<open>timedelta(days=n)\<close>, as a number of microseconds; the constructor raises
  \<^verbatim>\<open>OverflowError\<close> when the magnitude of \<open>n\<close> is above 999999999.
\<close>

definition timedelta :: "int \<Rightarrow> error + int" where
  "timedelta n = (if \<bar>n\<bar> \<le> 999999999 then Inr (n * usec_per_day) else Inl OverflowError)"

text \<open>
  The sum of a date-time and a timedelta; it raises \<^verbatim>\<open>OverflowError\<close> when the result is
  outside the years 1 to 9999.
\<close>

definition datetime_add :: "datetime \<Rightarrow> int \<Rightarrow> error + datetime" where
  "datetime_add t delta =
     (if datetime_min \<le> t + delta \<and> t + delta \<le> datetime_max then Inr (t + delta)
      else Inl OverflowError)"

text \<open>
  The attribute \<^verbatim>\<open>.days\<close> of a difference of two date-times. Python normalises a timedelta
  so that its seconds and microseconds are not negative: \<^verbatim>\<open>.days\<close> is the floor.
\<close>

definition td_days :: "int \<Rightarrow> int" where
  "td_days delta = delta div usec_per_day"

subsection \<open>Strings\<close>

text \<open>\<^verbatim>\<open>str.isspace\<close> on one ASCII character: codes 9 to 13 and 28 to 32.\<close>

definition isspace :: "char \<Rightarrow> bool" where
  "isspace c = (let n = (of_char c :: nat) in (9 \<le> n \<and> n \<le> 13) \<or> (28 \<le> n \<and> n \<le> 32))"

definition strip :: "string \<Rightarrow> string" where
  "strip s = rev (dropWhile isspace (rev (dropWhile isspace s)))"

definition upper_char :: "char \<Rightarrow> char" where
  "upper_char c = (let n = (of_char c :: nat) in if 97 \<le> n \<and> n \<le> 122 then char_of (n - 32) else c)"

definition upper :: "string \<Rightarrow> string" where
  "upper s = map upper_char s"

text \<open>\<^verbatim>\<open>str(n)\<close> of an integer, as the f-strings of the handlers format it.\<close>

fun str_nat :: "nat \<Rightarrow> string" where
  "str_nat n = (if n < 10 then [char_of (48 + n)] else str_nat (n div 10) @ [char_of (48 + n mod 10)])"

definition str_int :: "int \<Rightarrow> string" where
  "str_int i = (if i < 0 then CHR ''-'' # str_nat (nat (- i)) else str_nat (nat i))"

subsection \<open>JSON values and responses\<close>

datatype json = JNull | JBool bool | JInt int | JStr string | JDate date | JTime datetime

text \<open>The body that \<^verbatim>\<open>jsonify\<close> receives, and the HTTP status.\<close>

type_synonym response = "(string \<times> json) list \<times> nat"

subsection \<open>The database\<close>

record license =
  license_key :: string
  email :: string
  product :: string
  created_date :: date
  expiry_date :: date
  status :: string
  activations :: int
  max_activations :: int
  last_validated :: "datetime option"
  account_number :: "string option"

record validation_log =
  log_id :: int
  log_license_key :: string
  timestamp :: datetime
  ip_address :: "string option"
  log_account_number :: "string option"
  result :: string

text \<open>
  \<open>log_seq\<close> is the value SQLite keeps for the \<^verbatim>\<open>AUTOINCREMENT\<close> column of
  \<^verbatim>\<open>validation_logs\<close>.
\<close>

record database =
  licenses :: "license list"
  validation_logs :: "validation_log list"
  log_seq :: int

definition init_db :: database where
  "init_db = \<lparr>licenses = [], validation_logs = [], log_seq = 0\<rparr>"

definition select_license :: "database \<Rightarrow> string \<Rightarrow> license option" where
  "select_license db k = find (\<lambda>r. license_key r = k) (licenses db)"

text \<open>
  \<^verbatim>\<open>INSERT INTO validation_logs (license_key, timestamp, ip_address, result)\<close>: the column
  \<^verbatim>\<open>account_number\<close> is not in the statement and stays NULL.
\<close>

definition insert_log :: "database \<Rightarrow> string \<Rightarrow> datetime \<Rightarrow> string option \<Rightarrow> string \<Rightarrow> database" where
  "insert_log db k t ip res =
     db\<lparr>validation_logs := validation_logs db @
          [\<lparr>log_id = log_seq db + 1, log_license_key = k, timestamp = t, ip_address = ip,
            log_account_number = None, result = res\<rparr>],
        log_seq := log_seq db + 1\<rparr>"

definition update_last_validated :: "database \<Rightarrow> string \<Rightarrow> datetime \<Rightarrow> database" where
  "update_last_validated db k t =
     db\<lparr>licenses := map (\<lambda>r. if license_key r = k then r\<lparr>last_validated := Some t\<rparr> else r) (licenses db)\<rparr>"

definition increment_activations :: "database \<Rightarrow> string \<Rightarrow> database" where
  "increment_activations db k =
     db\<lparr>licenses := map (\<lambda>r. if license_key r = k then r\<lparr>activations := activations r + 1\<rparr> else r) (licenses db)\<rparr>"

text \<open>An integer that SQLite stores: 64 bits, signed.\<close>

definition sqlite_int :: "int \<Rightarrow> bool" where
  "sqlite_int i = (- (2 ^ 63) \<le> i \<and> i < 2 ^ 63)"

text \<open>
  The insert of \<^verbatim>\<open>generate_license\<close>. Binding an integer that SQLite cannot store raises
  \<^verbatim>\<open>OverflowError\<close>, a key that is present raises \<^verbatim>\<open>IntegrityError\<close>.
\<close>

definition insert_license :: "database \<Rightarrow> license \<Rightarrow> error + database" where
  "insert_license db row =
     (if \<not> (sqlite_int (activations row) \<and> sqlite_int (max_activations row)) then Inl OverflowError
      else if license_key row \<in> set (map license_key (licenses db)) then Inl IntegrityError
      else Inr (db\<lparr>licenses := licenses db @ [row]\<rparr>))"

subsection \<open>Requests\<close>

record request =
  req_license_key :: "string option"
  req_account_number :: "string option"
  remote_addr :: "string option"

record generate_request =
  req_email :: "string option"
  req_product :: "string option"
  req_duration_days :: "int option"
  req_max_activations :: "int option"

text \<open>\<^verbatim>\<open>data.get(name, default)\<close>.\<close>

definition get_default :: "'a option \<Rightarrow> 'a \<Rightarrow> 'a" where
  "get_default v d = (case v of None \<Rightarrow> d | Some x \<Rightarrow> x)"

subsection \<open>The key generator\<close>

definition hexdigit :: "nat \<Rightarrow> char" where
  "hexdigit n = ''0123456789abcdef'' ! n"

text \<open>\<^verbatim>\<open>secrets.token_hex(2)\<close> on the two random bytes it draws.\<close>

definition token_hex :: "8 word \<times> 8 word \<Rightarrow> string" where
  "token_hex bs =
     [hexdigit (unat (fst bs) div 16), hexdigit (unat (fst bs) mod 16),
      hexdigit (unat (snd bs) div 16), hexdigit (unat (snd bs) mod 16)]"

text \<open>\<^verbatim>\<open>'-'.join(parts)\<close>.\<close>

fun join :: "string \<Rightarrow> string list \<Rightarrow> string" where
  "join sep [] = []"
| "join sep [p] = p"
| "join sep (p # ps) = p @ sep @ join sep ps"

text \<open>\<open>rnd i\<close> is the pair of bytes that the \<open>i\<close>-th call of \<^verbatim>\<open>token_hex\<close> draws.\<close>

definition generate_license_key :: "(nat \<Rightarrow> 8 word \<times> 8 word) \<Rightarrow> string" where
  "generate_license_key rnd = ''NGC-'' @ join ''-'' (map (\<lambda>i. upper (token_hex (rnd i))) [0 ..< 4])"

subsection \<open>POST /validate\<close>

definition validate_license :: "database \<Rightarrow> request \<Rightarrow> (nat \<Rightarrow> datetime) \<Rightarrow> response \<times> database" where
  "validate_license db req now =
     (let license_key = upper (strip (get_default (req_license_key req) ''''));
          account_number = get_default (req_account_number req) '''';
          ip_address = remote_addr req
      in if license_key = [] then
           (([(''valid'', JBool False), (''message'', JStr ''License key is required'')], 400), db)
         else case select_license db license_key of
           None \<Rightarrow>
             (([(''valid'', JBool False), (''message'', JStr ''License key not found'')], 200),
              insert_log db license_key (now 0) ip_address ''NOT_FOUND'')
         | Some row \<Rightarrow>
             (case strptime (expiry_date row) of
                Inl e \<Rightarrow>
                  (([(''valid'', JBool False), (''message'', JStr ''Server error during validation'')], 500), db)
              | Inr expiry \<Rightarrow>
                  if expiry < now 0 then
                    (([(''valid'', JBool False), (''message'', JStr ''License has expired''),
                       (''expires'', JDate (expiry_date row))], 200),
                     insert_log db license_key (now 1) ip_address ''EXPIRED'')
                  else if status row \<noteq> ''active'' then
                    (([(''valid'', JBool False), (''message'', JStr (''License status: '' @ status row))], 200),
                     insert_log db license_key (now 1) ip_address ''INACTIVE'')
                  else
                    (([(''valid'', JBool True), (''expires'', JDate (expiry_date row)),
                       (''status'', JStr (status row)), (''product'', JStr (product row)),
                       (''message'', JStr ''License valid''),
                       (''days_remaining'', JInt (td_days (expiry - now 3)))], 200),
                     insert_log (update_last_validated db license_key (now 1)) license_key (now 2)
                       ip_address ''SUCCESS'')))"

subsection \<open>POST /activate\<close>

text \<open>
  The first half of the handler, to the check of the ceiling: the statement
  \<^verbatim>\<open>SELECT activations, max_activations, status\<close> and the early returns. \<open>Answered\<close> is a call
  that returns without writing, \<open>Selected\<close> one that goes on to the update, with the key and the
  two counts it has read.
\<close>

datatype activation = Answered response | Selected string int int

definition activate_read :: "database \<Rightarrow> request \<Rightarrow> activation" where
  "activate_read db req =
     (let license_key = upper (strip (get_default (req_license_key req) ''''));
          account_number = get_default (req_account_number req) ''''
      in if license_key = [] then
           Answered ([(''success'', JBool False), (''message'', JStr ''License key is required'')], 400)
         else case select_license db license_key of
           None \<Rightarrow>
             Answered ([(''success'', JBool False), (''message'', JStr ''License not found'')], 200)
         | Some row \<Rightarrow>
             if status row \<noteq> ''active'' then
               Answered ([(''success'', JBool False), (''message'', JStr (''License is '' @ status row))], 200)
             else if activations row \<ge> max_activations row then
               Answered ([(''success'', JBool False),
                  (''message'', JStr (''Maximum activations ('' @ str_int (max_activations row) @ '') reached''))],
                 200)
             else Selected license_key (activations row) (max_activations row))"

text \<open>
  The second half: \<^verbatim>\<open>UPDATE licenses SET activations = activations + 1\<close> on the database as
  it is at that moment, the commit, and the answer computed from the counts read before.
\<close>

definition activate_write :: "database \<Rightarrow> activation \<Rightarrow> response \<times> database" where
  "activate_write db a =
     (case a of
        Answered r \<Rightarrow> (r, db)
      | Selected license_key' activations' max_activations' \<Rightarrow>
          (([(''success'', JBool True), (''message'', JStr ''License activated successfully''),
             (''activations_used'', JInt (activations' + 1)),
             (''activations_remaining'', JInt (max_activations' - (activations' + 1)))], 200),
           increment_activations db license_key'))"

text \<open>One call on its own: the update follows the read on the same database.\<close>

definition activate_license :: "database \<Rightarrow> request \<Rightarrow> response \<times> database" where
  "activate_license db req = activate_write db (activate_read db req)"

text \<open>
  Calls that overlap. The calls are numbered; \<open>Read i\<close> is the first half of call \<open>i\<close> on the
  request \<open>reqs ! i\<close>, \<open>Write i\<close> its second half, and a schedule is the order in which the
  server runs the halves. \<open>pending\<close> holds what each call that has read and not yet written
  has read.
\<close>

datatype event = Read nat | Write nat

fun run_schedule ::
  "request list \<Rightarrow> event list \<Rightarrow> database \<times> (nat \<rightharpoonup> activation) \<Rightarrow> database \<times> (nat \<rightharpoonup> activation)" where
  "run_schedule reqs [] s = s"
| "run_schedule reqs (Read i # es) (db, pending) =
     run_schedule reqs es
       (if i < length reqs then (db, pending(i \<mapsto> activate_read db (reqs ! i))) else (db, pending))"
| "run_schedule reqs (Write i # es) (db, pending) =
     run_schedule reqs es
       (case pending i of
          None \<Rightarrow> (db, pending)
        | Some a \<Rightarrow> (snd (activate_write db a), pending(i := None)))"

subsection \<open>POST /generate\<close>

text \<open>
  \<open>env\<close> is the value of the environment variable \<^verbatim>\<open>ADMIN_API_KEY\<close> (\<open>None\<close> when it is not
  set), \<open>api_key\<close> the header \<^verbatim>\<open>X-API-Key\<close> of the request (\<open>None\<close> when it is not sent).
\<close>

definition ADMIN_API_KEY :: "string option \<Rightarrow> string" where
  "ADMIN_API_KEY env = get_default env ''change-me-in-production''"

text \<open>The answer of the \<^verbatim>\<open>except\<close> branch of \<^verbatim>\<open>generate_license\<close>.\<close>

definition server_error_during_generation :: response where
  "server_error_during_generation =
     ([(''success'', JBool False), (''message'', JStr ''Server error during generation'')], 500)"

definition generate_license ::
  "string option \<Rightarrow> string option \<Rightarrow> database \<Rightarrow> generate_request \<Rightarrow>
   (nat \<Rightarrow> 8 word \<times> 8 word) \<Rightarrow> (nat \<Rightarrow> datetime) \<Rightarrow> response \<times> database" where
  "generate_license env api_key db data rnd now =
     (if api_key \<noteq> Some (ADMIN_API_KEY env) then
        (([(''success'', JBool False), (''message'', JStr ''Unauthorized'')], 401), db)
      else
        let email = strip (get_default (req_email data) '''');
            product = get_default (req_product data) ''NGC_EA'';
            duration_days = get_default (req_duration_days data) 365;
            max_activations = get_default (req_max_activations data) 1
        in if email = [] then
             (([(''success'', JBool False), (''message'', JStr ''Email is required'')], 400), db)
           else
             let license_key = generate_license_key rnd;
                 created_date = strftime (now 0)
             in case timedelta duration_days of
                  Inl e \<Rightarrow> (server_error_during_generation, db)
                | Inr delta \<Rightarrow>
                   (case datetime_add (now 1) delta of
                      Inl e \<Rightarrow> (server_error_during_generation, db)
                    | Inr t \<Rightarrow>
                       let expiry_date = strftime t
                       in case insert_license db
                                 \<lparr>license_key = license_key, email = email, product = product,
                                  created_date = created_date, expiry_date = expiry_date,
                                  status = ''active'', activations = 0, max_activations = max_activations,
                                  last_validated = None, account_number = None\<rparr> of
                            Inl e \<Rightarrow> (server_error_during_generation, db)
                          | Inr db' \<Rightarrow>
                              (([(''success'', JBool True), (''license_key'', JStr license_key),
                                 (''email'', JStr email), (''product'', JStr product),
                                 (''created'', JDate created_date), (''expires'', JDate expiry_date),
                                 (''max_activations'', JInt max_activations)], 200), db')))"

subsection \<open>GET /check/<license_key>\<close>

definition json_time :: "datetime option \<Rightarrow> json" where
  "json_time t = (case t of None \<Rightarrow> JNull | Some x \<Rightarrow> JTime x)"

definition check_license :: "database \<Rightarrow> string \<Rightarrow> (nat \<Rightarrow> datetime) \<Rightarrow> response \<times> database" where
  "check_license db key now =
     (let license_key = upper (strip key)
      in case select_license db license_key of
           None \<Rightarrow>
             (([(''found'', JBool False), (''message'', JStr ''License not found'')], 200), db)
         | Some row \<Rightarrow>
             (case strptime (expiry_date row) of
                Inl e \<Rightarrow>
                  (([(''found'', JBool False), (''message'', JStr ''Error checking license'')], 500), db)
              | Inr expiry_date' \<Rightarrow>
                  let is_expired = (expiry_date' < now 0);
                      days_remaining = td_days (expiry_date' - now 1)
                  in (([(''found'', JBool True), (''license_key'', JStr license_key),
                        (''email'', JStr (email row)), (''product'', JStr (product row)),
                        (''created'', JDate (created_date row)), (''expires'', JDate (expiry_date row)),
                        (''status'', JStr (if is_expired then ''expired'' else status row)),
                        (''activations'', JInt (activations row)),
                        (''max_activations'', JInt (max_activations row)),
                        (''days_remaining'', JInt (max 0 days_remaining)),
                        (''last_validated'', json_time (last_validated row))], 200), db)))"

subsection \<open>GET /stats\<close>

text \<open>
  \<^verbatim>\<open>expiry_date < date('now')\<close> is SQLite's comparison of two texts. \<open>utc_today\<close> is the
  current day in UTC, which \<^verbatim>\<open>date('now')\<close> renders with a year of four digits. When the year
  of the stored day has four digits too, the order of the texts is the order of the days;
  the text of an earlier day is shorter, and \<open>text_less\<close> stands for SQLite's answer on it.
\<close>

definition sqlite_date_less :: "(date \<Rightarrow> date \<Rightarrow> bool) \<Rightarrow> date \<Rightarrow> date \<Rightarrow> bool" where
  "sqlite_date_less text_less e utc_today =
     (if four_digit_year e \<and> four_digit_year utc_today then e < utc_today else text_less e utc_today)"

text \<open>
  \<^verbatim>\<open>timestamp LIKE 'today%'\<close>: \<^verbatim>\<open>isoformat()\<close> always writes four digits of year, so the
  pattern matches a timestamp of the same day when the year of \<open>today\<close> has four digits, and
  none otherwise.
\<close>

definition timestamp_like :: "datetime \<Rightarrow> date \<Rightarrow> bool" where
  "timestamp_like t today = (four_digit_year today \<and> strftime t = today)"

definition get_stats ::
  "string option \<Rightarrow> string option \<Rightarrow> database \<Rightarrow> (nat \<Rightarrow> datetime) \<Rightarrow> date \<Rightarrow>
   (date \<Rightarrow> date \<Rightarrow> bool) \<Rightarrow> response \<times> database" where
  "get_stats env api_key db now utc_today text_less =
     (if api_key \<noteq> Some (ADMIN_API_KEY env) then
        (([(''error'', JStr ''Unauthorized'')], 401), db)
      else
        let total_licenses = length (licenses db);
            active_licenses = length (filter (\<lambda>r. status r = ''active'') (licenses db));
            expired_licenses =
              length (filter (\<lambda>r. sqlite_date_less text_less (expiry_date r) utc_today) (licenses db));
            today = strftime (now 0);
            validations_today =
              length (filter (\<lambda>l. timestamp_like (timestamp l) today) (validation_logs db))
        in (([(''total_licenses'', JInt (int total_licenses)),
              (''active_licenses'', JInt (int active_licenses)),
              (''expired_licenses'', JInt (int expired_licenses)),
              (''validations_today'', JInt (int validations_today))], 200), db))"

subsection \<open>Notions used in the statements\<close>

text \<open>The key that \<^verbatim>\<open>/validate\<close> and \<^verbatim>\<open>/activate\<close> look up: trimmed and uppercased.\<close>

definition normalized_key :: "request \<Rightarrow> string" where
  "normalized_key req = upper (strip (get_default (req_license_key req) ''''))"

text \<open>The constraint \<^verbatim>\<open>license_key TEXT PRIMARY KEY\<close> of the schema.\<close>

definition primary_key :: "database \<Rightarrow> bool" where
  "primary_key db = distinct (map license_key (licenses db))"

definition within_ceiling :: "database \<Rightarrow> bool" where
  "within_ceiling db = list_all (\<lambda>r. activations r \<le> max_activations r) (licenses db)"

text \<open>
  A schedule in which no two calls overlap: the second half of each call directly follows
  its first half.
\<close>

fun serial :: "event list \<Rightarrow> bool" where
  "serial [] = True"
| "serial (Read i # Write j # es) = (i = j \<and> serial es)"
| "serial es = False"

text \<open>
  The days remaining as the specification words them, \<open>ceil(expiry_date - now)\<close>: the
  difference in days, rounded up.
\<close>

definition spec_days_remaining :: "datetime \<Rightarrow> datetime \<Rightarrow> int" where
  "spec_days_remaining expiry t = - ((t - expiry) div usec_per_day)"

text \<open>Concrete inputs for the examples.\<close>

definition example_rnd :: "nat \<Rightarrow> 8 word \<times> 8 word" where
  "example_rnd i = (0xAB, 0x0F)"

text \<open>Day 739252 is 2025-01-01.\<close>

definition midnight_clock :: "nat \<Rightarrow> datetime" where
  "midnight_clock i = 739252 * usec_per_day"

definition noon_clock :: "nat \<Rightarrow> datetime" where
  "noon_clock i = 739252 * usec_per_day + 43200000000"

text \<open>
  The examples hold days of four-digit years only, on which the comparison of short texts
  is not consulted.
\<close>

definition example_text_less :: "date \<Rightarrow> date \<Rightarrow> bool" where
  "example_text_less e t = False"

definition example_key :: string where
  "example_key = ''NGC-AB0F-AB0F-AB0F-AB0F''"

definition example_request :: request where
  "example_request = \<lparr>req_license_key = Some ''ngc-ab0f-ab0f-ab0f-ab0f '', req_account_number = Some ''12345678'',
                       remote_addr = Some ''10.0.0.1''\<rparr>"

definition example_generate :: "int \<Rightarrow> int \<Rightarrow> generate_request" where
  "example_generate d m = \<lparr>req_email = Some ''customer@example.com'', req_product = None,
                            req_duration_days = Some d, req_max_activations = Some m\<rparr>"

text \<open>
  The database after one authorised call of \<^verbatim>\<open>/generate\<close> on the empty database, with the
  secret left at its default, at the given clock.
\<close>

definition issued_row :: "int \<Rightarrow> int \<Rightarrow> (nat \<Rightarrow> datetime) \<Rightarrow> license" where
  "issued_row d m now =
     \<lparr>license_key = ''NGC-AB0F-AB0F-AB0F-AB0F'', email = ''customer@example.com'', product = ''NGC_EA'',
      created_date = strftime (now 0), expiry_date = strftime (now 1) + d, status = ''active'',
      activations = 0, max_activations = m, last_validated = None, account_number = None\<rparr>"

definition issued_db :: "int \<Rightarrow> int \<Rightarrow> (nat \<Rightarrow> datetime) \<Rightarrow> database" where
  "issued_db d m now =
     snd (generate_license None (Some ''change-me-in-production'') init_db (example_generate d m)
            example_rnd now)"

section \<open>Auxiliary facts\<close>

lemma strftime_add_days: "strftime (t + n * usec_per_day) = strftime t + n"
  by (simp add: strftime_def usec_per_day_def)

lemma upper_char_idem: "upper_char (upper_char c) = upper_char c"
  by (auto simp add: upper_char_def Let_def)

lemma upper_idem: "upper (upper s) = upper s"
  by (simp add: upper_def upper_char_idem)

lemma upper_append: "upper (a @ b) = upper a @ upper b"
  by (simp add: upper_def)

lemma dropWhile_hd: "xs \<noteq> [] \<Longrightarrow> \<not> P (hd xs) \<Longrightarrow> dropWhile P xs = xs"
  by (cases xs) simp_all

lemma strip_id:
  assumes "s \<noteq> []" and "\<not> isspace (hd s)" and "\<not> isspace (last s)"
  shows "strip s = s"
proof -
  have "dropWhile isspace s = s"
    using assms by (simp add: dropWhile_hd)
  moreover have "dropWhile isspace (rev s) = rev s"
    using assms by (simp add: dropWhile_hd hd_rev)
  ultimately show ?thesis
    by (simp add: strip_def)
qed

lemma hexdigit_all:
  "list_all (\<lambda>k. \<not> isspace (upper_char (hexdigit k))) [0, 1, 2, 3, 4, 5, 6, 7, 8, 9, 10, 11, 12, 13, 14, 15]"
  by (simp add: hexdigit_def upper_char_def isspace_def char_of_def)

lemma below_16: "n < 16 \<Longrightarrow> n \<in> set [0, 1, 2, 3, 4, 5, 6, 7, 8, 9, 10, 11, 12, 13, 14, 15::nat]"
  by (simp del: One_nat_def) arith

lemma hexdigit_not_space: "n < 16 \<Longrightarrow> \<not> isspace (upper_char (hexdigit n))"
  using hexdigit_all below_16 [of n] unfolding list_all_iff by blast

lemma generate_license_key_unfold:
  "generate_license_key rnd =
     ''NGC-'' @ upper (token_hex (rnd 0)) @ ''-'' @ upper (token_hex (rnd 1)) @ ''-'' @
     upper (token_hex (rnd 2)) @ ''-'' @ upper (token_hex (rnd 3))"
proof -
  have "[0 ..< 4] = [0, 1, 2, 3::nat]" by code_simp
  then show ?thesis by (simp add: generate_license_key_def)
qed

lemma upper_generated: "upper (generate_license_key rnd) = generate_license_key rnd"
proof -
  have a: "upper ''NGC-'' = ''NGC-''" by code_simp
  have b: "upper ''-'' = ''-''" by code_simp
  show ?thesis
    unfolding generate_license_key_unfold upper_append upper_idem a b ..
qed

lemma strip_generated: "strip (generate_license_key rnd) = generate_license_key rnd"
proof (rule strip_id)
  show "generate_license_key rnd \<noteq> []" by (simp add: generate_license_key_unfold)
  show "\<not> isspace (hd (generate_license_key rnd))"
    by (simp add: generate_license_key_unfold isspace_def)
  have "last (generate_license_key rnd) = upper_char (hexdigit (unat (snd (rnd 3)) mod 16))"
    by (simp add: generate_license_key_unfold token_hex_def upper_def)
  then show "\<not> isspace (last (generate_license_key rnd))"
    by (simp add: hexdigit_not_space)
qed

lemma normalized_generated: "upper (strip (generate_license_key rnd)) = generate_license_key rnd"
  by (simp add: strip_generated upper_generated)

lemma example_request_key: "normalized_key example_request = example_key"
  by code_simp

lemma example_rnd_key: "generate_license_key example_rnd = example_key"
  by code_simp

lemma example_key_nonempty: "example_key \<noteq> []"
  by (simp add: example_key_def)

lemma example_email: "strip (get_default (req_email (example_generate d m)) '''') = ''customer@example.com''"
  by (simp add: example_generate_def get_default_def strip_def isspace_def)

lemma issued_db_eq:
  assumes "\<bar>d\<bar> \<le> 999999999"
    and "datetime_min \<le> now 1 + d * usec_per_day" and "now 1 + d * usec_per_day \<le> datetime_max"
    and "sqlite_int m"
  shows "issued_db d m now = \<lparr>licenses = [issued_row d m now], validation_logs = [], log_seq = 0\<rparr>"
  using assms
  by (simp add: issued_db_def generate_license_def ADMIN_API_KEY_def example_email timedelta_def
      datetime_add_def insert_license_def sqlite_int_def Let_def init_db_def example_rnd_key
      example_key_def issued_row_def strftime_add_days)
    (simp add: example_generate_def get_default_def)

lemma find_key_unique:
  assumes "distinct (map license_key rows)"
    and "find (\<lambda>r. license_key r = k) rows = Some row"
    and "r \<in> set rows" and "license_key r = k"
  shows "r = row"
proof -
  from assms(2) have "row \<in> set rows" and "license_key row = k"
    by (auto simp add: find_Some_iff)
  moreover from assms(1) have "inj_on license_key (set rows)"
    by (simp add: distinct_map)
  ultimately show ?thesis
    using assms(3,4) by (auto dest: inj_onD)
qed

lemma increment_within_ceiling:
  assumes "primary_key db" and "within_ceiling db"
    and "select_license db k = Some row" and "activations row < max_activations row"
  shows "within_ceiling (increment_activations db k)"
proof -
  have "activations r + 1 \<le> max_activations r" if "r \<in> set (licenses db)" "license_key r = k" for r
  proof -
    have "r = row"
      using assms(1,3) that by (auto simp add: primary_key_def select_license_def intro: find_key_unique)
    with assms(4) show ?thesis by simp
  qed
  with assms(2) show ?thesis
    by (auto simp add: within_ceiling_def increment_activations_def list_all_iff)
qed

lemma increment_keys:
  "map license_key (map (\<lambda>r. if license_key r = k then r\<lparr>activations := activations r + 1\<rparr> else r) rows)
     = map license_key rows"
  by (induction rows) simp_all

lemma increment_primary_key: "primary_key (increment_activations db k) = primary_key db"
  by (simp add: primary_key_def increment_activations_def increment_keys del: map_map)

lemma activate_cases:
  "snd (activate_license db req) = db
   \<or> (\<exists>row. select_license db (normalized_key req) = Some row
        \<and> activations row < max_activations row
        \<and> snd (activate_license db req) = increment_activations db (normalized_key req))"
  by (auto simp add: activate_license_def activate_read_def activate_write_def normalized_key_def Let_def
      split: option.split)

lemma activate_invariant:
  assumes "primary_key db" and "within_ceiling db"
  shows "primary_key (snd (activate_license db req)) \<and> within_ceiling (snd (activate_license db req))"
  using activate_cases [of db req] assms
  by (auto simp add: increment_primary_key intro: increment_within_ceiling)

lemma serial_invariant:
  "serial es \<Longrightarrow> primary_key db \<Longrightarrow> within_ceiling db \<Longrightarrow>
   primary_key (fst (run_schedule reqs es (db, Map.empty)))
   \<and> within_ceiling (fst (run_schedule reqs es (db, Map.empty)))"
proof (induction es arbitrary: db rule: serial.induct)
  case 1
  then show ?case by simp
next
  case (2 i j es)
  then have ij: "j = i" and s: "serial es" by simp_all
  show ?case
  proof (cases "i < length reqs")
    case True
    then have "run_schedule reqs (Read i # Write j # es) (db, Map.empty) =
        run_schedule reqs es (snd (activate_license db (reqs ! i)), Map.empty)"
      by (simp add: ij activate_license_def)
    moreover have "primary_key (snd (activate_license db (reqs ! i)))"
      and "within_ceiling (snd (activate_license db (reqs ! i)))"
      using "2.prems" activate_invariant by blast+
    ultimately show ?thesis
      using "2.IH" [of "snd (activate_license db (reqs ! i))"] s ij by simp
  next
    case False
    then have "run_schedule reqs (Read i # Write j # es) (db, Map.empty) =
        run_schedule reqs es (db, Map.empty)"
      by (simp add: ij)
    then show ?thesis
      using "2.IH" [of db] "2.prems" s ij by simp
  qed
qed simp_all

lemma select_increment:
  "select_license db k = Some row \<Longrightarrow>
   select_license (increment_activations db k) k = Some (row\<lparr>activations := activations row + 1\<rparr>)"
proof -
  have "find (\<lambda>r. license_key r = k) rows = Some row \<Longrightarrow>
      find (\<lambda>r. license_key r = k) (map (\<lambda>r. if license_key r = k then r\<lparr>activations := activations r + 1\<rparr> else r) rows)
      = Some (row\<lparr>activations := activations row + 1\<rparr>)" for rows
    by (induction rows) (auto split: if_splits)
  then show "select_license db k = Some row \<Longrightarrow> ?thesis"
    by (simp add: select_license_def increment_activations_def)
qed

lemma activate_read_selected:
  "activate_read db req = Selected k a m \<Longrightarrow>
   k = normalized_key req \<and> a < m
   \<and> (\<exists>row. select_license db k = Some row \<and> status row = ''active''
         \<and> a = activations row \<and> m = max_activations row)"
  by (auto simp add: activate_read_def normalized_key_def Let_def split: option.splits if_splits)

lemma issued_30: "issued_db 30 m noon_clock =
    \<lparr>licenses = [issued_row 30 m noon_clock], validation_logs = [], log_seq = 0\<rparr>" if "sqlite_int m"
  using that
  by (intro issued_db_eq) (simp_all add: noon_clock_def usec_per_day_def datetime_min_def datetime_max_def)

lemma issued_select:
  "issued_db d m now = \<lparr>licenses = [issued_row d m now], validation_logs = [], log_seq = 0\<rparr> \<Longrightarrow>
   select_license (issued_db d m now) example_key = Some (issued_row d m now)"
  by (simp add: select_license_def issued_row_def example_key_def)

lemma example_read:
  assumes "issued_db d m now = \<lparr>licenses = [issued_row d m now], validation_logs = [], log_seq = 0\<rparr>"
  shows "activate_read (issued_db d m now) example_request =
     (if 0 \<ge> m then
        Answered ([(''success'', JBool False),
                   (''message'', JStr (''Maximum activations ('' @ str_int m @ '') reached''))], 200)
      else Selected example_key 0 m)"
  using issued_select [OF assms]
  by (simp add: activate_read_def example_request_key [unfolded normalized_key_def] Let_def
      example_key_nonempty issued_row_def)

lemma issued_midnight: "\<bar>d\<bar> \<le> 300000 \<Longrightarrow> sqlite_int m \<Longrightarrow> issued_db d m midnight_clock =
    \<lparr>licenses = [issued_row d m midnight_clock], validation_logs = [], log_seq = 0\<rparr>"
  by (intro issued_db_eq) (simp_all add: midnight_clock_def usec_per_day_def datetime_min_def datetime_max_def)

lemma issued_noon: "\<bar>d\<bar> \<le> 400000 \<Longrightarrow> sqlite_int m \<Longrightarrow> issued_db d m noon_clock =
    \<lparr>licenses = [issued_row d m noon_clock], validation_logs = [], log_seq = 0\<rparr>"
  by (intro issued_db_eq) (simp_all add: noon_clock_def usec_per_day_def datetime_min_def datetime_max_def)

lemma issued_expiry:
  "expiry_date (issued_row d m midnight_clock) = 739252 + d"
  "expiry_date (issued_row d m noon_clock) = 739252 + d"
  by (simp_all add: issued_row_def strftime_def midnight_clock_def noon_clock_def usec_per_day_def)

lemma td_days_floor:
  "td_days x * usec_per_day \<le> x \<and> x < (td_days x + 1) * usec_per_day"
proof -
  define q r where "q = x div usec_per_day" and "r = x mod usec_per_day"
  have p: "0 < usec_per_day" by (simp add: usec_per_day_def)
  have "q * usec_per_day + r = x"
    by (simp add: q_def r_def)
  moreover have "0 \<le> r" and "r < usec_per_day"
    using p by (simp_all add: r_def)
  moreover have "(q + 1) * usec_per_day = q * usec_per_day + usec_per_day"
    by (simp add: distrib_right)
  ultimately have "q * usec_per_day \<le> x \<and> x < (q + 1) * usec_per_day"
    by linarith
  then show ?thesis
    by (simp add: td_days_def q_def)
qed

lemma spec_days_remaining_eq:
  "spec_days_remaining e t = (if usec_per_day dvd (e - t) then td_days (e - t) else td_days (e - t) + 1)"
proof -
  have p: "usec_per_day \<noteq> 0" by (simp add: usec_per_day_def)
  have "(t - e) div usec_per_day = (- (e - t)) div usec_per_day"
    by simp
  also have "\<dots> = (if (e - t) mod usec_per_day = 0 then - ((e - t) div usec_per_day)
                    else - ((e - t) div usec_per_day) - 1)"
    using p by (rule zdiv_zminus1_eq_if)
  finally show ?thesis
    by (simp add: spec_days_remaining_def td_days_def dvd_eq_mod_eq_0)
qed

lemma find_append_fresh:
  "k \<notin> set (map license_key rows) \<Longrightarrow> license_key row = k \<Longrightarrow>
   find (\<lambda>r. license_key r = k) (rows @ [row]) = Some row"
  by (induction rows) auto

lemma generate_license_key_nonempty: "generate_license_key rnd \<noteq> []"
  by (simp add: generate_license_key_unfold)

lemma four_digit_year_range:
  assumes "four_digit_year (strftime t)"
  shows "datetime_min \<le> t \<and> t \<le> datetime_max"
proof -
  define q r where "q = t div usec_per_day" and "r = t mod usec_per_day"
  have "q * usec_per_day + r = t"
    by (simp add: q_def r_def)
  moreover have "0 \<le> r" and "r < usec_per_day"
    by (simp_all add: r_def usec_per_day_def)
  moreover have "364878 \<le> q" and "q \<le> 3652059"
    using assms by (simp_all add: four_digit_year_def strftime_def q_def)
  ultimately show ?thesis
    unfolding datetime_min_def datetime_max_def usec_per_day_def by linarith
qed

lemma validate_expired_iff:
  assumes "normalized_key req \<noteq> []"
    and "select_license db (normalized_key req) = Some row"
    and "strptime (expiry_date row) = Inr expiry"
  shows "(fst (validate_license db req now) =
            ([(''valid'', JBool False), (''message'', JStr ''License has expired''),
              (''expires'', JDate (expiry_date row))], 200)
          \<and> validation_logs (snd (validate_license db req now)) =
              validation_logs db @
                [\<lparr>log_id = log_seq db + 1, log_license_key = normalized_key req, timestamp = now 1,
                  ip_address = remote_addr req, log_account_number = None, result = ''EXPIRED''\<rparr>])
         \<longleftrightarrow> expiry < now 0"
  using assms
  by (simp add: validate_license_def normalized_key_def Let_def insert_log_def)

lemma issue_then_validate:
  assumes "api_key = Some (ADMIN_API_KEY env)"
    and "strip (get_default (req_email data) '''') \<noteq> []"
    and "req_duration_days data = Some 0"
    and "sqlite_int (get_default (req_max_activations data) 1)"
    and "generate_license_key rnd \<notin> set (map license_key (licenses db))"
    and "req_license_key req = Some (generate_license_key rnd)"
    and "four_digit_year (strftime (issue_now 1))"
    and "strftime (now 0) = strftime (issue_now 1)"
    and "strftime (now 0) * usec_per_day < now 0"
  shows "fst (validate_license (snd (generate_license env api_key db data rnd issue_now)) req now) =
            ([(''valid'', JBool False), (''message'', JStr ''License has expired''),
              (''expires'', JDate (strftime (issue_now 1)))], 200)
         \<and> result (last (validation_logs (snd (validate_license
               (snd (generate_license env api_key db data rnd issue_now)) req now)))) = ''EXPIRED''"
proof -
  define row where "row =
     \<lparr>license_key = generate_license_key rnd,
      email = strip (get_default (req_email data) ''''),
      product = get_default (req_product data) ''NGC_EA'',
      created_date = strftime (issue_now 0),
      expiry_date = strftime (issue_now 1),
      status = ''active'', activations = 0,
      max_activations = get_default (req_max_activations data) 1,
      last_validated = None, account_number = None\<rparr>"
  define db' where "db' = snd (generate_license env api_key db data rnd issue_now)"
  have range: "datetime_min \<le> issue_now 1" "issue_now 1 \<le> datetime_max"
    using four_digit_year_range [OF assms(7)] by simp_all
  have "db' = db\<lparr>licenses := licenses db @ [row]\<rparr>"
    using assms(1-5) range
    by (simp add: db'_def row_def generate_license_def insert_license_def Let_def timedelta_def
        datetime_add_def get_default_def sqlite_int_def)
  then have sel: "select_license db' (generate_license_key rnd) = Some row"
    using assms(5) by (simp add: select_license_def find_append_fresh row_def)
  have key: "normalized_key req = generate_license_key rnd"
    using assms(6) by (simp add: normalized_key_def get_default_def normalized_generated)
  have parse: "strptime (expiry_date row) = Inr (strftime (issue_now 1) * usec_per_day)"
    using assms(7) by (simp add: row_def strptime_def)
  have exp: "strftime (issue_now 1) * usec_per_day < now 0"
    using assms(8,9) by simp
  have "fst (validate_license db' req now) =
            ([(''valid'', JBool False), (''message'', JStr ''License has expired''),
              (''expires'', JDate (expiry_date row))], 200)
          \<and> validation_logs (snd (validate_license db' req now)) =
              validation_logs db' @
                [\<lparr>log_id = log_seq db' + 1, log_license_key = normalized_key req, timestamp = now 1,
                  ip_address = remote_addr req, log_account_number = None, result = ''EXPIRED''\<rparr>]"
    using validate_expired_iff [of req db' row "strftime (issue_now 1) * usec_per_day" now]
      sel key parse exp generate_license_key_nonempty [of rnd]
    by simp
  then show ?thesis
    by (simp add: db'_def [symmetric] row_def)
qed

section \<open>The claims\<close>

text \<open>
  C1, as amended. In a database that satisfies the primary key of \<^verbatim>\<open>licenses\<close> and in which
  no license has more activations than \<open>max_activations\<close>, that still holds after every
  schedule of calls of \<^verbatim>\<open>/activate\<close> in which no two calls overlap. For a license that is
  found and active, a call on its own increments \<open>activations\<close> by 1 when the count it read is
  strictly below \<open>max_activations\<close>; otherwise it answers \<^verbatim>\<open>success: false\<close> with the message
  \<^verbatim>\<open>Maximum activations (<max>) reached\<close> and leaves the database unchanged. A call that
  changes the database has read a count strictly below the ceiling, and in any schedule the
  first half of a call goes on to the update only with such a count. Nothing is stated of
  calls that overlap.
\<close>

theorem activate_keeps_ceiling:
  assumes "primary_key db" and "within_ceiling db" and "serial es"
  shows "within_ceiling (fst (run_schedule reqs es (db, Map.empty)))
   \<and> (\<forall>req row. normalized_key req \<noteq> [] \<and> select_license db (normalized_key req) = Some row
          \<and> status row = ''active'' \<longrightarrow>
        (if activations row < max_activations row
         then fst (activate_license db req) =
                ([(''success'', JBool True), (''message'', JStr ''License activated successfully''),
                  (''activations_used'', JInt (activations row + 1)),
                  (''activations_remaining'', JInt (max_activations row - (activations row + 1)))], 200)
              \<and> select_license (snd (activate_license db req)) (normalized_key req) =
                  Some (row\<lparr>activations := activations row + 1\<rparr>)
         else activate_license db req =
                (([(''success'', JBool False),
                   (''message'', JStr (''Maximum activations ('' @ str_int (max_activations row) @ '') reached''))],
                  200), db)))
   \<and> (\<forall>req. snd (activate_license db req) \<noteq> db \<longrightarrow>
        (\<exists>row. select_license db (normalized_key req) = Some row
           \<and> activations row < max_activations row))
   \<and> (\<forall>req k a m. activate_read db req = Selected k a m \<longrightarrow>
        a < m \<and> (\<exists>row. select_license db k = Some row \<and> a = activations row \<and> m = max_activations row))"
proof (intro conjI allI impI)
  show "within_ceiling (fst (run_schedule reqs es (db, Map.empty)))"
    using assms serial_invariant by blast
next
  fix req row
  assume "normalized_key req \<noteq> [] \<and> select_license db (normalized_key req) = Some row
          \<and> status row = ''active''"
  then show "if activations row < max_activations row
         then fst (activate_license db req) =
                ([(''success'', JBool True), (''message'', JStr ''License activated successfully''),
                  (''activations_used'', JInt (activations row + 1)),
                  (''activations_remaining'', JInt (max_activations row - (activations row + 1)))], 200)
              \<and> select_license (snd (activate_license db req)) (normalized_key req) =
                  Some (row\<lparr>activations := activations row + 1\<rparr>)
         else activate_license db req =
                (([(''success'', JBool False),
                   (''message'', JStr (''Maximum activations ('' @ str_int (max_activations row) @ '') reached''))],
                  200), db)"
    by (simp add: activate_license_def activate_read_def activate_write_def normalized_key_def [symmetric]
        Let_def select_increment)
next
  fix req
  assume "snd (activate_license db req) \<noteq> db"
  then show "\<exists>row. select_license db (normalized_key req) = Some row
           \<and> activations row < max_activations row"
    using activate_cases [of db req] by blast
next
  fix req k a m
  assume "activate_read db req = Selected k a m"
  from activate_read_selected [OF this]
  show "a < m" and "\<exists>row. select_license db k = Some row \<and> a = activations row \<and> m = max_activations row"
    by blast+
qed

text \<open>
  The instance: a license issued with \<open>max_activations = 1\<close> and two calls one after the
  other; the first activation answers \<^verbatim>\<open>activations_used: 1, activations_remaining: 0\<close>, and
  the count stays within the ceiling.
\<close>

theorem activate_keeps_ceiling_witness:
  "primary_key (issued_db 30 1 noon_clock) \<and> within_ceiling (issued_db 30 1 noon_clock)
   \<and> serial [Read 0, Write 0, Read 1, Write 1]
   \<and> within_ceiling (fst (run_schedule [example_request, example_request]
         [Read 0, Write 0, Read 1, Write 1] (issued_db 30 1 noon_clock, Map.empty)))
   \<and> fst (activate_license (issued_db 30 1 noon_clock) example_request) =
        ([(''success'', JBool True), (''message'', JStr ''License activated successfully''),
          (''activations_used'', JInt 1), (''activations_remaining'', JInt 0)], 200)"
proof -
  have d1: "issued_db 30 1 noon_clock = \<lparr>licenses = [issued_row 30 1 noon_clock], validation_logs = [], log_seq = 0\<rparr>"
    by (simp add: issued_30 sqlite_int_def)
  have h1: "primary_key (issued_db 30 1 noon_clock)"
    by (simp add: d1 primary_key_def)
  have h2: "within_ceiling (issued_db 30 1 noon_clock)"
    by (simp add: d1 within_ceiling_def issued_row_def)
  have h3: "serial [Read 0, Write 0, Read 1, Write 1]"
    by simp
  have k: "normalized_key example_request \<noteq> []"
    by (simp add: example_request_key example_key_nonempty)
  have s: "select_license (issued_db 30 1 noon_clock) (normalized_key example_request) = Some (issued_row 30 1 noon_clock)"
    by (simp add: example_request_key issued_select [OF d1])
  have r: "status (issued_row 30 1 noon_clock) = ''active''" "activations (issued_row 30 1 noon_clock) = 0"
    "max_activations (issued_row 30 1 noon_clock) = 1"
    by (simp_all add: issued_row_def)
  note t = activate_keeps_ceiling [OF h1 h2 h3, of "[example_request, example_request]"]
  from t have a: "within_ceiling (fst (run_schedule [example_request, example_request]
         [Read 0, Write 0, Read 1, Write 1] (issued_db 30 1 noon_clock, Map.empty)))"
    by blast
  from t have b: "normalized_key example_request \<noteq> []
        \<and> select_license (issued_db 30 1 noon_clock) (normalized_key example_request) = Some (issued_row 30 1 noon_clock)
        \<and> status (issued_row 30 1 noon_clock) = ''active'' \<longrightarrow>
        (if activations (issued_row 30 1 noon_clock) < max_activations (issued_row 30 1 noon_clock)
         then fst (activate_license (issued_db 30 1 noon_clock) example_request) =
                ([(''success'', JBool True), (''message'', JStr ''License activated successfully''),
                  (''activations_used'', JInt (activations (issued_row 30 1 noon_clock) + 1)),
                  (''activations_remaining'', JInt (max_activations (issued_row 30 1 noon_clock) - (activations (issued_row 30 1 noon_clock) + 1)))], 200)
              \<and> select_license (snd (activate_license (issued_db 30 1 noon_clock) example_request)) (normalized_key example_request) =
                  Some ((issued_row 30 1 noon_clock)\<lparr>activations := activations (issued_row 30 1 noon_clock) + 1\<rparr>)
         else activate_license (issued_db 30 1 noon_clock) example_request =
                (([(''success'', JBool False),
                   (''message'', JStr (''Maximum activations ('' @ str_int (max_activations (issued_row 30 1 noon_clock)) @ '') reached''))],
                  200), issued_db 30 1 noon_clock))"
    by blast
  from b k s r
  have "fst (activate_license (issued_db 30 1 noon_clock) example_request) =
        ([(''success'', JBool True), (''message'', JStr ''License activated successfully''),
          (''activations_used'', JInt 1), (''activations_remaining'', JInt 0)], 200)"
    by simp
  with h1 h2 h3 a show ?thesis by blast
qed

text \<open>
  C1 as stated fails in two ways. When two calls overlap, so that both read before either
  writes, a license issued with \<open>max_activations = 1\<close> ends with 2 activations: the update
  is not guarded by the count. And \<^verbatim>\<open>/generate\<close> accepts any integer for
  \<open>max_activations\<close>: a license issued with \<open>max_activations = -1\<close> has 0 activations, above
  its ceiling, after a call of \<^verbatim>\<open>/activate\<close> completes.
\<close>

theorem ceiling_exceeded_counterexample:
  "primary_key (issued_db 30 1 noon_clock) \<and> within_ceiling (issued_db 30 1 noon_clock)
   \<and> map activations (licenses (fst (run_schedule [example_request, example_request]
         [Read 0, Read 1, Write 0, Write 1] (issued_db 30 1 noon_clock, Map.empty)))) = [2]
   \<and> map max_activations (licenses (fst (run_schedule [example_request, example_request]
         [Read 0, Read 1, Write 0, Write 1] (issued_db 30 1 noon_clock, Map.empty)))) = [1]
   \<and> map activations (licenses (snd (activate_license (issued_db 30 (- 1) noon_clock) example_request))) = [0]
   \<and> map max_activations (licenses (snd (activate_license (issued_db 30 (- 1) noon_clock) example_request))) = [- 1]"
proof -
  have d1: "issued_db 30 1 noon_clock = \<lparr>licenses = [issued_row 30 1 noon_clock], validation_logs = [], log_seq = 0\<rparr>"
    by (simp add: issued_30 sqlite_int_def)
  have d2: "issued_db 30 (- 1) noon_clock = \<lparr>licenses = [issued_row 30 (- 1) noon_clock], validation_logs = [], log_seq = 0\<rparr>"
    by (simp add: issued_30 sqlite_int_def)
  have r1: "activate_read (issued_db 30 1 noon_clock) example_request = Selected example_key 0 1"
    using example_read [OF d1] by simp
  have r2: "activate_read (issued_db 30 (- 1) noon_clock) example_request =
      Answered ([(''success'', JBool False),
                   (''message'', JStr (''Maximum activations ('' @ str_int (- 1) @ '') reached''))], 200)"
    using example_read [OF d2] by simp
  have a: "primary_key (issued_db 30 1 noon_clock)" "within_ceiling (issued_db 30 1 noon_clock)"
    by (simp_all add: d1 primary_key_def within_ceiling_def issued_row_def)
  have "fst (run_schedule [example_request, example_request]
         [Read 0, Read 1, Write 0, Write 1] (issued_db 30 1 noon_clock, Map.empty)) =
       snd (activate_write (snd (activate_write (issued_db 30 1 noon_clock) (Selected example_key 0 1)))
              (Selected example_key 0 1))"
    by (simp add: r1)
  then have b: "map activations (licenses (fst (run_schedule [example_request, example_request]
         [Read 0, Read 1, Write 0, Write 1] (issued_db 30 1 noon_clock, Map.empty)))) = [2]"
    "map max_activations (licenses (fst (run_schedule [example_request, example_request]
         [Read 0, Read 1, Write 0, Write 1] (issued_db 30 1 noon_clock, Map.empty)))) = [1]"
    by (simp_all add: activate_write_def increment_activations_def d1 issued_row_def example_key_def)
  have "snd (activate_license (issued_db 30 (- 1) noon_clock) example_request) = issued_db 30 (- 1) noon_clock"
    by (simp add: activate_license_def r2 activate_write_def)
  then have c: "map activations (licenses (snd (activate_license (issued_db 30 (- 1) noon_clock) example_request))) = [0]"
    "map max_activations (licenses (snd (activate_license (issued_db 30 (- 1) noon_clock) example_request))) = [- 1]"
    by (simp_all add: d2 issued_row_def)
  from a b c show ?thesis by blast
qed

text \<open>
  C2. Whenever \<^verbatim>\<open>/validate\<close> finds the license of the normalised key, its status is
  \<^verbatim>\<open>active\<close>, its expiry date parses and the expiry (midnight of the expiry day) is not
  before the clock reading of the expiry check, the answer is \<^verbatim>\<open>valid: true\<close> with status
  200. No condition on \<open>activations\<close> and \<open>max_activations\<close> is needed: the ceiling does not
  block validation.
\<close>

theorem validate_ignores_ceiling:
  assumes "normalized_key req \<noteq> []"
    and "select_license db (normalized_key req) = Some row"
    and "status row = ''active''"
    and "strptime (expiry_date row) = Inr expiry"
    and "\<not> expiry < now 0"
  shows "fst (validate_license db req now) =
     ([(''valid'', JBool True), (''expires'', JDate (expiry_date row)),
       (''status'', JStr ''active''), (''product'', JStr (product row)),
       (''message'', JStr ''License valid''),
       (''days_remaining'', JInt (td_days (expiry - now 3)))], 200)"
  using assms by (simp add: validate_license_def normalized_key_def Let_def)

text \<open>
  The instance: a license issued with \<open>max_activations = 0\<close>, so that
  \<open>activations \<ge> max_activations\<close>, validated at noon of 2025-01-01, thirty days before its
  expiry.
\<close>

theorem validate_ignores_ceiling_witness:
  "normalized_key example_request \<noteq> []
   \<and> select_license (issued_db 30 0 noon_clock) (normalized_key example_request) = Some (issued_row 30 0 noon_clock)
   \<and> status (issued_row 30 0 noon_clock) = ''active''
   \<and> max_activations (issued_row 30 0 noon_clock) \<le> activations (issued_row 30 0 noon_clock)
   \<and> strptime (expiry_date (issued_row 30 0 noon_clock)) = Inr (739282 * usec_per_day)
   \<and> \<not> 739282 * usec_per_day < noon_clock 0
   \<and> fst (validate_license (issued_db 30 0 noon_clock) example_request noon_clock) =
       ([(''valid'', JBool True), (''expires'', JDate 739282), (''status'', JStr ''active''),
         (''product'', JStr ''NGC_EA''), (''message'', JStr ''License valid''),
         (''days_remaining'', JInt 29)], 200)"
proof -
  have d: "issued_db 30 0 noon_clock = \<lparr>licenses = [issued_row 30 0 noon_clock], validation_logs = [], log_seq = 0\<rparr>"
    by (simp add: issued_noon sqlite_int_def)
  have h1: "normalized_key example_request \<noteq> []"
    by (simp add: example_request_key example_key_nonempty)
  have h2: "select_license (issued_db 30 0 noon_clock) (normalized_key example_request) = Some (issued_row 30 0 noon_clock)"
    by (simp add: example_request_key issued_select [OF d])
  have h3: "status (issued_row 30 0 noon_clock) = ''active''"
    and h3': "max_activations (issued_row 30 0 noon_clock) \<le> activations (issued_row 30 0 noon_clock)"
    and p: "product (issued_row 30 0 noon_clock) = ''NGC_EA''"
    by (simp_all add: issued_row_def)
  have h4: "strptime (expiry_date (issued_row 30 0 noon_clock)) = Inr (739282 * usec_per_day)"
    by (simp add: issued_expiry strptime_def four_digit_year_def)
  have h5: "\<not> 739282 * usec_per_day < noon_clock 0"
    by (simp add: noon_clock_def usec_per_day_def)
  have e: "td_days (739282 * usec_per_day - noon_clock 3) = 29"
    by (simp add: noon_clock_def usec_per_day_def td_days_def)
  from h1 h2 h3 h4 h5
    validate_ignores_ceiling [where req = example_request and db = "issued_db 30 0 noon_clock"
      and row = "issued_row 30 0 noon_clock" and now = noon_clock and expiry = "739282 * usec_per_day"]
  have "fst (validate_license (issued_db 30 0 noon_clock) example_request noon_clock) =
       ([(''valid'', JBool True), (''expires'', JDate 739282), (''status'', JStr ''active''),
         (''product'', JStr ''NGC_EA''), (''message'', JStr ''License valid''),
         (''days_remaining'', JInt 29)], 200)"
    by (simp add: e p issued_expiry)
  with h1 h2 h3 h3' h4 h5 show ?thesis by blast
qed

text \<open>
  C3, as amended. A call of \<^verbatim>\<open>/validate\<close> whose normalised key is empty is answered with
  status 400 and leaves the database as it was: no log entry. A call that finds a license
  whose stored expiry date \<^verbatim>\<open>strptime\<close> cannot parse (a year of fewer than four digits) is
  answered with status 500 and leaves the database as it was: no log entry either. Every
  other call appends exactly one entry to \<^verbatim>\<open>validation_logs\<close>, for the normalised key, and
  its result matches the answer: \<^verbatim>\<open>NOT_FOUND\<close> with \<^verbatim>\<open>License key not found\<close>,
  \<^verbatim>\<open>EXPIRED\<close> with \<^verbatim>\<open>License has expired\<close>, \<^verbatim>\<open>INACTIVE\<close> with
  \<^verbatim>\<open>License status: ...\<close>, \<^verbatim>\<open>SUCCESS\<close> with \<^verbatim>\<open>valid: true\<close>.
\<close>

theorem validate_logs_once:
  "(normalized_key req = [] \<longrightarrow>
      validate_license db req now =
        (([(''valid'', JBool False), (''message'', JStr ''License key is required'')], 400), db))
   \<and> (normalized_key req \<noteq> []
       \<and> (\<exists>row. select_license db (normalized_key req) = Some row \<and> \<not> four_digit_year (expiry_date row)) \<longrightarrow>
      validate_license db req now =
        (([(''valid'', JBool False), (''message'', JStr ''Server error during validation'')], 500), db))
   \<and> (normalized_key req \<noteq> []
       \<and> (\<forall>row. select_license db (normalized_key req) = Some row \<longrightarrow> four_digit_year (expiry_date row)) \<longrightarrow>
      (\<exists>t res. validation_logs (snd (validate_license db req now)) =
           validation_logs db @
             [\<lparr>log_id = log_seq db + 1, log_license_key = normalized_key req, timestamp = t,
               ip_address = remote_addr req, log_account_number = None, result = res\<rparr>]
         \<and> (res = ''NOT_FOUND'' \<and> select_license db (normalized_key req) = None
               \<and> fst (validate_license db req now) =
                   ([(''valid'', JBool False), (''message'', JStr ''License key not found'')], 200)
            \<or> res = ''EXPIRED''
               \<and> (\<exists>row. select_license db (normalized_key req) = Some row
                     \<and> fst (validate_license db req now) =
                        ([(''valid'', JBool False), (''message'', JStr ''License has expired''),
                          (''expires'', JDate (expiry_date row))], 200))
            \<or> res = ''INACTIVE''
               \<and> (\<exists>row. select_license db (normalized_key req) = Some row
                     \<and> fst (validate_license db req now) =
                        ([(''valid'', JBool False), (''message'', JStr (''License status: '' @ status row))], 200))
            \<or> res = ''SUCCESS''
               \<and> map_of (fst (fst (validate_license db req now))) ''valid'' = Some (JBool True))))"
  by (auto simp add: validate_license_def normalized_key_def Let_def insert_log_def update_last_validated_def
      strptime_def split: option.split)

text \<open>
  The instances: the key of a license that expires in thirty days gives one log entry, a
  key of blanks gives the 400 answer and the database unchanged.
\<close>

theorem validate_logs_once_witness:
  "normalized_key example_request \<noteq> []
   \<and> select_license (issued_db 30 1 noon_clock) (normalized_key example_request) =
       Some (issued_row 30 1 noon_clock)
   \<and> four_digit_year (expiry_date (issued_row 30 1 noon_clock))
   \<and> length (validation_logs (snd (validate_license (issued_db 30 1 noon_clock) example_request noon_clock))) = 1
   \<and> normalized_key (example_request\<lparr>req_license_key := Some ''  ''\<rparr>) = []
   \<and> validate_license init_db (example_request\<lparr>req_license_key := Some ''  ''\<rparr>) noon_clock =
       (([(''valid'', JBool False), (''message'', JStr ''License key is required'')], 400), init_db)"
proof -
  have d: "issued_db 30 1 noon_clock = \<lparr>licenses = [issued_row 30 1 noon_clock], validation_logs = [], log_seq = 0\<rparr>"
    by (simp add: issued_noon sqlite_int_def)
  have h1: "normalized_key example_request \<noteq> []"
    by (simp add: example_request_key example_key_nonempty)
  have h2: "select_license (issued_db 30 1 noon_clock) (normalized_key example_request) =
       Some (issued_row 30 1 noon_clock)"
    by (simp add: example_request_key issued_select [OF d])
  have h2': "four_digit_year (expiry_date (issued_row 30 1 noon_clock))"
    by (simp add: issued_expiry four_digit_year_def)
  have h3: "normalized_key (example_request\<lparr>req_license_key := Some ''  ''\<rparr>) = []"
    by (simp add: normalized_key_def get_default_def upper_def strip_def isspace_def)
  from h2 h2' have h4: "\<forall>row. select_license (issued_db 30 1 noon_clock) (normalized_key example_request) = Some row \<longrightarrow>
         four_digit_year (expiry_date row)"
    by simp
  from h1 h4 validate_logs_once [of example_request "issued_db 30 1 noon_clock" noon_clock]
  obtain e where "validation_logs (snd (validate_license (issued_db 30 1 noon_clock) example_request noon_clock)) =
      validation_logs (issued_db 30 1 noon_clock) @ [e]"
    by blast
  then have l: "length (validation_logs (snd (validate_license (issued_db 30 1 noon_clock) example_request noon_clock))) = 1"
    by (simp add: d)
  from h3 validate_logs_once [of "example_request\<lparr>req_license_key := Some ''  ''\<rparr>" init_db noon_clock]
  have r: "validate_license init_db (example_request\<lparr>req_license_key := Some ''  ''\<rparr>) noon_clock =
       (([(''valid'', JBool False), (''message'', JStr ''License key is required'')], 400), init_db)"
    by blast
  show ?thesis using h1 h2 h2' l h3 r by blast
qed

text \<open>
  C3 as stated fails on a license that \<^verbatim>\<open>/generate\<close> itself can write: issued on
  2025-01-01 with \<open>duration_days = -400000\<close>, its expiry date is day 339252 (929-11-03),
  which \<^verbatim>\<open>strptime\<close> refuses. The key is not empty, the call is answered with 500 and no log
  entry is appended.
\<close>

theorem validate_unparsed_expiry_counterexample:
  "normalized_key example_request \<noteq> []
   \<and> select_license (issued_db (- 400000) 1 noon_clock) (normalized_key example_request) =
       Some (issued_row (- 400000) 1 noon_clock)
   \<and> expiry_date (issued_row (- 400000) 1 noon_clock) = 339252
   \<and> validate_license (issued_db (- 400000) 1 noon_clock) example_request noon_clock =
       (([(''valid'', JBool False), (''message'', JStr ''Server error during validation'')], 500),
        issued_db (- 400000) 1 noon_clock)
   \<and> validation_logs (issued_db (- 400000) 1 noon_clock) = []"
proof -
  have d: "issued_db (- 400000) 1 noon_clock =
      \<lparr>licenses = [issued_row (- 400000) 1 noon_clock], validation_logs = [], log_seq = 0\<rparr>"
    by (simp add: issued_noon sqlite_int_def)
  have h1: "normalized_key example_request \<noteq> []"
    by (simp add: example_request_key example_key_nonempty)
  have h2: "select_license (issued_db (- 400000) 1 noon_clock) (normalized_key example_request) =
       Some (issued_row (- 400000) 1 noon_clock)"
    by (simp add: example_request_key issued_select [OF d])
  have h3: "expiry_date (issued_row (- 400000) 1 noon_clock) = 339252"
    by (simp add: issued_expiry)
  have "validate_license (issued_db (- 400000) 1 noon_clock) example_request noon_clock =
       (([(''valid'', JBool False), (''message'', JStr ''Server error during validation'')], 500),
        issued_db (- 400000) 1 noon_clock)"
    using issued_select [OF d] h3
    by (simp add: validate_license_def example_request_key [unfolded normalized_key_def]
        example_key_nonempty Let_def strptime_def four_digit_year_def)
  moreover have "validation_logs (issued_db (- 400000) 1 noon_clock) = []"
    by (simp add: d)
  ultimately show ?thesis using h1 h2 h3 by blast
qed

text \<open>
  C4, as amended. With \<^verbatim>\<open>ADMIN_API_KEY\<close> not set, a caller of \<^verbatim>\<open>/generate\<close> or
  \<^verbatim>\<open>/stats\<close> whose \<^verbatim>\<open>X-API-Key\<close> is missing or differs from the placeholder
  \<^verbatim>\<open>change-me-in-production\<close> is answered with Unauthorized and status 401, whatever the
  database holds, and the database is unchanged; a caller that sends the placeholder itself
  passes the check of both handlers.
\<close>

theorem default_secret_gate:
  "(api_key \<noteq> Some ''change-me-in-production'' \<longrightarrow>
      generate_license None api_key db data rnd now =
        (([(''success'', JBool False), (''message'', JStr ''Unauthorized'')], 401), db)
      \<and> get_stats None api_key db now utc_today text_less = (([(''error'', JStr ''Unauthorized'')], 401), db))
   \<and> (api_key = Some ''change-me-in-production'' \<longrightarrow>
      snd (fst (generate_license None api_key db data rnd now)) \<noteq> 401
      \<and> snd (fst (get_stats None api_key db now utc_today text_less)) = 200)"
  by (simp add: generate_license_def get_stats_def ADMIN_API_KEY_def get_default_def Let_def
      server_error_during_generation_def split: option.split sum.split)

text \<open>
  The instances: a wrong key on \<^verbatim>\<open>/generate\<close>, no key on \<^verbatim>\<open>/stats\<close>.
\<close>

theorem default_secret_gate_witness:
  "Some ''wrong-key'' \<noteq> Some ''change-me-in-production''
   \<and> generate_license None (Some ''wrong-key'') init_db (example_generate 30 1) example_rnd noon_clock =
        (([(''success'', JBool False), (''message'', JStr ''Unauthorized'')], 401), init_db)
   \<and> get_stats None None init_db noon_clock 739252 example_text_less =
        (([(''error'', JStr ''Unauthorized'')], 401), init_db)"
  using default_secret_gate [of "Some ''wrong-key''" init_db "example_generate 30 1" example_rnd noon_clock 739252 example_text_less]
    default_secret_gate [of None init_db "example_generate 30 1" example_rnd noon_clock 739252 example_text_less]
  by simp

text \<open>
  C4 as stated fails at the placeholder itself: with the secret at its default,
  \<^verbatim>\<open>X-API-Key: change-me-in-production\<close> issues a license and reads the statistics.
\<close>

theorem default_secret_accepted_counterexample:
  "generate_license None (Some ''change-me-in-production'') init_db (example_generate 30 1) example_rnd noon_clock =
     (([(''success'', JBool True), (''license_key'', JStr ''NGC-AB0F-AB0F-AB0F-AB0F''),
        (''email'', JStr ''customer@example.com''), (''product'', JStr ''NGC_EA''),
        (''created'', JDate 739252), (''expires'', JDate 739282), (''max_activations'', JInt 1)], 200),
      \<lparr>licenses = [issued_row 30 1 noon_clock], validation_logs = [], log_seq = 0\<rparr>)
   \<and> fst (get_stats None (Some ''change-me-in-production'') (issued_db 30 1 noon_clock) noon_clock 739252
           example_text_less) =
       ([(''total_licenses'', JInt 1), (''active_licenses'', JInt 1), (''expired_licenses'', JInt 0),
         (''validations_today'', JInt 0)], 200)"
proof -
  have d: "issued_db 30 1 noon_clock = \<lparr>licenses = [issued_row 30 1 noon_clock], validation_logs = [], log_seq = 0\<rparr>"
    by (simp add: issued_noon sqlite_int_def)
  have g: "generate_license None (Some ''change-me-in-production'') init_db (example_generate 30 1) example_rnd noon_clock =
     (([(''success'', JBool True), (''license_key'', JStr ''NGC-AB0F-AB0F-AB0F-AB0F''),
        (''email'', JStr ''customer@example.com''), (''product'', JStr ''NGC_EA''),
        (''created'', JDate 739252), (''expires'', JDate 739282), (''max_activations'', JInt 1)], 200),
      \<lparr>licenses = [issued_row 30 1 noon_clock], validation_logs = [], log_seq = 0\<rparr>)"
    by (simp add: generate_license_def ADMIN_API_KEY_def example_email Let_def example_rnd_key)
      (simp add: example_generate_def get_default_def timedelta_def datetime_add_def datetime_min_def
        datetime_max_def insert_license_def sqlite_int_def init_db_def
        example_key_def issued_row_def strftime_def noon_clock_def usec_per_day_def)
  have "fst (get_stats None (Some ''change-me-in-production'') (issued_db 30 1 noon_clock) noon_clock 739252
           example_text_less) =
       ([(''total_licenses'', JInt 1), (''active_licenses'', JInt 1), (''expired_licenses'', JInt 0),
         (''validations_today'', JInt 0)], 200)"
    by (simp add: get_stats_def ADMIN_API_KEY_def get_default_def Let_def d sqlite_date_less_def
        four_digit_year_def issued_expiry)
      (simp add: issued_row_def)
  with g show ?thesis by blast
qed

text \<open>
  C5, as amended. An authorised call of \<^verbatim>\<open>/generate\<close> with a non-empty email generates
  one key and does not retry. The call is answered with the server error and status 500,
  and the database is unchanged, when \<open>duration_days\<close> is above 999999999 in magnitude, when
  the second clock reading plus \<open>duration_days\<close> days is outside the years 1 to 9999, when
  \<open>max_activations\<close> does not fit in 64 bits, or when the key is already a \<open>license_key\<close> of
  the table: an existing record is not overwritten. Otherwise one record is appended, with
  \<open>created_date\<close> the day of the first clock reading, \<open>expiry_date\<close> the day of the second
  clock reading plus \<open>duration_days\<close>, status \<^verbatim>\<open>active\<close> and 0 activations, and the
  records that were there are kept.
\<close>

theorem generate_inserts_or_fails:
  assumes "api_key = Some (ADMIN_API_KEY env)"
    and "strip (get_default (req_email data) '''') \<noteq> []"
  shows "generate_license env api_key db data rnd now =
     (if \<not> \<bar>get_default (req_duration_days data) 365\<bar> \<le> 999999999
         \<or> \<not> (datetime_min \<le> now 1 + get_default (req_duration_days data) 365 * usec_per_day
              \<and> now 1 + get_default (req_duration_days data) 365 * usec_per_day \<le> datetime_max)
         \<or> \<not> sqlite_int (get_default (req_max_activations data) 1)
         \<or> generate_license_key rnd \<in> set (map license_key (licenses db)) then
        (([(''success'', JBool False), (''message'', JStr ''Server error during generation'')], 500), db)
      else
        (([(''success'', JBool True), (''license_key'', JStr (generate_license_key rnd)),
           (''email'', JStr (strip (get_default (req_email data) ''''))),
           (''product'', JStr (get_default (req_product data) ''NGC_EA'')),
           (''created'', JDate (strftime (now 0))),
           (''expires'', JDate (strftime (now 1) + get_default (req_duration_days data) 365)),
           (''max_activations'', JInt (get_default (req_max_activations data) 1))], 200),
         db\<lparr>licenses := licenses db @
            [\<lparr>license_key = generate_license_key rnd,
              email = strip (get_default (req_email data) ''''),
              product = get_default (req_product data) ''NGC_EA'',
              created_date = strftime (now 0),
              expiry_date = strftime (now 1) + get_default (req_duration_days data) 365,
              status = ''active'', activations = 0,
              max_activations = get_default (req_max_activations data) 1,
              last_validated = None, account_number = None\<rparr>]\<rparr>))"
  using assms
  by (simp add: generate_license_def insert_license_def timedelta_def datetime_add_def Let_def
      strftime_add_days server_error_during_generation_def sqlite_int_def)

text \<open>
  The instance: the first license issued on the empty database.
\<close>

theorem generate_inserts_or_fails_witness:
  "Some ''change-me-in-production'' = Some (ADMIN_API_KEY None)
   \<and> strip (get_default (req_email (example_generate 30 1)) '''') \<noteq> []
   \<and> snd (generate_license None (Some ''change-me-in-production'') init_db (example_generate 30 1) example_rnd noon_clock) =
       \<lparr>licenses = [issued_row 30 1 noon_clock], validation_logs = [], log_seq = 0\<rparr>"
proof -
  have h1: "Some ''change-me-in-production'' = Some (ADMIN_API_KEY None)"
    by (simp add: ADMIN_API_KEY_def get_default_def)
  have h2: "strip (get_default (req_email (example_generate 30 1)) '''') \<noteq> []"
    by (simp add: example_email)
  have v: "get_default (req_duration_days (example_generate 30 1)) 365 = 30"
    "get_default (req_max_activations (example_generate 30 1)) 1 = 1"
    "get_default (req_product (example_generate 30 1)) ''NGC_EA'' = ''NGC_EA''"
    by (simp_all add: example_generate_def get_default_def)
  have c: "\<not> (\<not> \<bar>30::int\<bar> \<le> 999999999
         \<or> \<not> (datetime_min \<le> noon_clock 1 + 30 * usec_per_day
              \<and> noon_clock 1 + 30 * usec_per_day \<le> datetime_max)
         \<or> \<not> sqlite_int 1
         \<or> generate_license_key example_rnd \<in> set (map license_key (licenses init_db)))"
    by (simp add: noon_clock_def usec_per_day_def datetime_min_def datetime_max_def sqlite_int_def init_db_def)
  from generate_inserts_or_fails [OF h1 h2, of init_db example_rnd noon_clock] c
  have "snd (generate_license None (Some ''change-me-in-production'') init_db (example_generate 30 1) example_rnd noon_clock) =
       \<lparr>licenses = [issued_row 30 1 noon_clock], validation_logs = [], log_seq = 0\<rparr>"
    by (simp add: v example_email) (simp add: init_db_def issued_row_def example_rnd_key example_key_def)
  with h1 h2 show ?thesis by blast
qed

text \<open>
  C5 as stated fails on a collision: issuing again with the same random bytes, and so
  the same key, is answered with status 500; no other key is tried. It fails as well for
  \<open>duration_days = 3000000\<close>, a day beyond the year 9999: status 500, no record.
\<close>

theorem generate_collision_counterexample:
  "generate_license None (Some ''change-me-in-production'') (issued_db 30 1 noon_clock)
      (example_generate 30 1) example_rnd noon_clock =
     (([(''success'', JBool False), (''message'', JStr ''Server error during generation'')], 500),
      issued_db 30 1 noon_clock)
   \<and> generate_license None (Some ''change-me-in-production'') init_db
      (example_generate 3000000 1) example_rnd noon_clock =
     (([(''success'', JBool False), (''message'', JStr ''Server error during generation'')], 500),
      init_db)"
proof -
  have d: "issued_db 30 1 noon_clock = \<lparr>licenses = [issued_row 30 1 noon_clock], validation_logs = [], log_seq = 0\<rparr>"
    by (simp add: issued_noon sqlite_int_def)
  have k: "generate_license_key example_rnd \<in> set (map license_key (licenses (issued_db 30 1 noon_clock)))"
    by (simp add: d issued_row_def example_rnd_key example_key_def)
  have "generate_license None (Some ''change-me-in-production'') (issued_db 30 1 noon_clock)
      (example_generate 30 1) example_rnd noon_clock =
     (([(''success'', JBool False), (''message'', JStr ''Server error during generation'')], 500),
      issued_db 30 1 noon_clock)"
    using k
    by (simp add: generate_license_def ADMIN_API_KEY_def example_email Let_def
        server_error_during_generation_def)
      (simp add: example_generate_def get_default_def timedelta_def datetime_add_def datetime_min_def
        datetime_max_def noon_clock_def usec_per_day_def insert_license_def sqlite_int_def
        server_error_during_generation_def)
  moreover have "generate_license None (Some ''change-me-in-production'') init_db
      (example_generate 3000000 1) example_rnd noon_clock =
     (([(''success'', JBool False), (''message'', JStr ''Server error during generation'')], 500),
      init_db)"
    by (simp add: generate_license_def ADMIN_API_KEY_def example_email Let_def
        server_error_during_generation_def)
      (simp add: example_generate_def get_default_def timedelta_def datetime_add_def datetime_min_def
        datetime_max_def noon_clock_def usec_per_day_def server_error_during_generation_def)
  ultimately show ?thesis by blast
qed

text \<open>
  C6, as amended. On a successful validation the answer carries \<^verbatim>\<open>valid: true\<close>, the
  stored status, product and expiry date, and \<open>days_remaining\<close> is the number \<open>n\<close> of whole
  days in the difference between midnight of the expiry day and the last clock reading of
  the call, rounded down: \<open>n\<close> days \<open>\<le>\<close> difference \<open><\<close> \<open>n + 1\<close> days. The rounded-up
  value of the specification is \<open>n\<close> only when the difference is a whole number of days,
  and \<open>n + 1\<close> otherwise.
\<close>

theorem days_remaining_floor:
  assumes "normalized_key req \<noteq> []"
    and "select_license db (normalized_key req) = Some row"
    and "status row = ''active''"
    and "strptime (expiry_date row) = Inr expiry"
    and "\<not> expiry < now 0"
  shows "(\<exists>n. fst (validate_license db req now) =
            ([(''valid'', JBool True), (''expires'', JDate (expiry_date row)),
              (''status'', JStr (status row)), (''product'', JStr (product row)),
              (''message'', JStr ''License valid''), (''days_remaining'', JInt n)], 200)
          \<and> n * usec_per_day \<le> expiry - now 3
          \<and> expiry - now 3 < (n + 1) * usec_per_day
          \<and> spec_days_remaining expiry (now 3) =
               (if usec_per_day dvd (expiry - now 3) then n else n + 1))"
proof -
  have "fst (validate_license db req now) =
            ([(''valid'', JBool True), (''expires'', JDate (expiry_date row)),
              (''status'', JStr (status row)), (''product'', JStr (product row)),
              (''message'', JStr ''License valid''),
              (''days_remaining'', JInt (td_days (expiry - now 3)))], 200)"
    using assms by (simp add: validate_license_def normalized_key_def Let_def)
  then show ?thesis
    using td_days_floor [of "expiry - now 3"] spec_days_remaining_eq [of expiry "now 3"]
    by blast
qed

text \<open>
  The instance: expiry at midnight of 2025-01-02, validated at noon of 2025-01-01.
\<close>

theorem days_remaining_floor_witness:
  "normalized_key example_request \<noteq> []
   \<and> select_license (issued_db 1 1 midnight_clock) (normalized_key example_request) = Some (issued_row 1 1 midnight_clock)
   \<and> status (issued_row 1 1 midnight_clock) = ''active''
   \<and> strptime (expiry_date (issued_row 1 1 midnight_clock)) = Inr (739253 * usec_per_day)
   \<and> \<not> 739253 * usec_per_day < noon_clock 0
   \<and> (\<exists>n. map_of (fst (fst (validate_license (issued_db 1 1 midnight_clock) example_request noon_clock))) ''days_remaining''
            = Some (JInt n)
          \<and> n * usec_per_day \<le> 43200000000 \<and> 43200000000 < (n + 1) * usec_per_day)"
proof -
  have d: "issued_db 1 1 midnight_clock = \<lparr>licenses = [issued_row 1 1 midnight_clock], validation_logs = [], log_seq = 0\<rparr>"
    by (simp add: issued_midnight sqlite_int_def)
  have h1: "normalized_key example_request \<noteq> []"
    by (simp add: example_request_key example_key_nonempty)
  have h2: "select_license (issued_db 1 1 midnight_clock) (normalized_key example_request) = Some (issued_row 1 1 midnight_clock)"
    by (simp add: example_request_key issued_select [OF d])
  have h3: "status (issued_row 1 1 midnight_clock) = ''active''"
    by (simp add: issued_row_def)
  have h4: "strptime (expiry_date (issued_row 1 1 midnight_clock)) = Inr (739253 * usec_per_day)"
    by (simp add: issued_expiry strptime_def four_digit_year_def)
  have h5: "\<not> 739253 * usec_per_day < noon_clock 0"
    by (simp add: noon_clock_def usec_per_day_def)
  have e: "739253 * usec_per_day - noon_clock 3 = 43200000000"
    by (simp add: noon_clock_def usec_per_day_def)
  from days_remaining_floor [where req = example_request and db = "issued_db 1 1 midnight_clock"
      and row = "issued_row 1 1 midnight_clock" and now = noon_clock and expiry = "739253 * usec_per_day"]
    h1 h2 h3 h4 h5
  obtain n where "fst (validate_license (issued_db 1 1 midnight_clock) example_request noon_clock) =
            ([(''valid'', JBool True), (''expires'', JDate (expiry_date (issued_row 1 1 midnight_clock))),
              (''status'', JStr (status (issued_row 1 1 midnight_clock))), (''product'', JStr (product (issued_row 1 1 midnight_clock))),
              (''message'', JStr ''License valid''), (''days_remaining'', JInt n)], 200)"
    and "n * usec_per_day \<le> 739253 * usec_per_day - noon_clock 3"
    and "739253 * usec_per_day - noon_clock 3 < (n + 1) * usec_per_day"
    by blast
  then have "map_of (fst (fst (validate_license (issued_db 1 1 midnight_clock) example_request noon_clock))) ''days_remaining''
            = Some (JInt n)
          \<and> n * usec_per_day \<le> 43200000000 \<and> 43200000000 < (n + 1) * usec_per_day"
    by (simp add: e)
  with h1 h2 h3 h4 h5 show ?thesis by blast
qed

text \<open>
  C6 as stated fails there: half a day before the expiry the answer has
  \<open>days_remaining = 0\<close>, the rounded-up value is 1.
\<close>

theorem days_remaining_ceil_counterexample:
  "strptime (expiry_date (issued_row 1 1 midnight_clock)) = Inr (739253 * usec_per_day)
   \<and> noon_clock 3 = 739252 * usec_per_day + 43200000000
   \<and> spec_days_remaining (739253 * usec_per_day) (noon_clock 3) = 1
   \<and> map_of (fst (fst (validate_license (issued_db 1 1 midnight_clock) example_request noon_clock))) ''days_remaining'' =
       Some (JInt 0)"
proof -
  have d: "issued_db 1 1 midnight_clock = \<lparr>licenses = [issued_row 1 1 midnight_clock], validation_logs = [], log_seq = 0\<rparr>"
    by (simp add: issued_midnight sqlite_int_def)
  have p: "strptime (expiry_date (issued_row 1 1 midnight_clock)) = Inr (739253 * usec_per_day)"
    by (simp add: issued_expiry strptime_def four_digit_year_def)
  have n: "noon_clock 3 = 739252 * usec_per_day + 43200000000"
    by (simp add: noon_clock_def)
  have s: "spec_days_remaining (739253 * usec_per_day) (noon_clock 3) = 1"
    by (simp add: spec_days_remaining_def noon_clock_def usec_per_day_def)
  have "map_of (fst (fst (validate_license (issued_db 1 1 midnight_clock) example_request noon_clock))) ''days_remaining'' =
     Some (JInt (td_days (739253 * usec_per_day - noon_clock 3)))"
    using issued_select [OF d] p
    by (simp add: validate_license_def example_request_key [unfolded normalized_key_def]
      Let_def example_key_nonempty)
      (simp add: issued_row_def noon_clock_def usec_per_day_def)
  then have "map_of (fst (fst (validate_license (issued_db 1 1 midnight_clock) example_request noon_clock))) ''days_remaining'' =
       Some (JInt 0)"
    by (simp add: td_days_def noon_clock_def usec_per_day_def)
  with p n s show ?thesis by blast
qed

text \<open>
  C7, as amended. For a license that \<^verbatim>\<open>/validate\<close> finds and whose stored expiry date
  parses, the answer is \<^verbatim>\<open>License has expired\<close> with an \<^verbatim>\<open>EXPIRED\<close> log entry exactly when
  midnight of the expiry day is strictly before the clock reading of the check. A license
  issued with \<open>duration_days = 0\<close>, in a year of four digits, has the day of issue (the day
  of the clock reading its expiry is computed from) as expiry date, and validates as expired
  at every instant of that day after 00:00:00.000000.
\<close>

theorem validate_expiry_boundary:
  "(normalized_key req \<noteq> [] \<and> select_license db (normalized_key req) = Some row
      \<and> strptime (expiry_date row) = Inr expiry \<longrightarrow>
      ((fst (validate_license db req now) =
            ([(''valid'', JBool False), (''message'', JStr ''License has expired''),
              (''expires'', JDate (expiry_date row))], 200)
          \<and> validation_logs (snd (validate_license db req now)) =
              validation_logs db @
                [\<lparr>log_id = log_seq db + 1, log_license_key = normalized_key req, timestamp = now 1,
                  ip_address = remote_addr req, log_account_number = None, result = ''EXPIRED''\<rparr>])
         \<longleftrightarrow> expiry < now 0))
   \<and> (api_key = Some (ADMIN_API_KEY env)
       \<and> strip (get_default (req_email data) '''') \<noteq> []
       \<and> req_duration_days data = Some 0
       \<and> sqlite_int (get_default (req_max_activations data) 1)
       \<and> generate_license_key rnd \<notin> set (map license_key (licenses db))
       \<and> req_license_key req = Some (generate_license_key rnd)
       \<and> four_digit_year (strftime (issue_now 1))
       \<and> strftime (now 0) = strftime (issue_now 1)
       \<and> strftime (now 0) * usec_per_day < now 0 \<longrightarrow>
      fst (validate_license (snd (generate_license env api_key db data rnd issue_now)) req now) =
            ([(''valid'', JBool False), (''message'', JStr ''License has expired''),
              (''expires'', JDate (strftime (issue_now 1)))], 200)
      \<and> result (last (validation_logs (snd (validate_license
               (snd (generate_license env api_key db data rnd issue_now)) req now)))) = ''EXPIRED'')"
  using validate_expired_iff [of req db row expiry now]
    issue_then_validate [of api_key env data rnd db req issue_now now]
  by blast

text \<open>
  The instances: a license issued at midnight of 2025-01-01 with \<open>duration_days = 0\<close>,
  validated at noon of that day.
\<close>

theorem validate_expiry_boundary_witness:
  "normalized_key example_request \<noteq> []
   \<and> select_license (issued_db 0 1 midnight_clock) (normalized_key example_request) = Some (issued_row 0 1 midnight_clock)
   \<and> strptime (expiry_date (issued_row 0 1 midnight_clock)) = Inr (739252 * usec_per_day)
   \<and> 739252 * usec_per_day < noon_clock 0
   \<and> fst (validate_license (issued_db 0 1 midnight_clock) example_request noon_clock) =
       ([(''valid'', JBool False), (''message'', JStr ''License has expired''), (''expires'', JDate 739252)], 200)
   \<and> Some ''change-me-in-production'' = Some (ADMIN_API_KEY None)
   \<and> strip (get_default (req_email (example_generate 0 1)) '''') \<noteq> []
   \<and> req_duration_days (example_generate 0 1) = Some 0
   \<and> sqlite_int (get_default (req_max_activations (example_generate 0 1)) 1)
   \<and> generate_license_key example_rnd \<notin> set (map license_key (licenses init_db))
   \<and> req_license_key (example_request\<lparr>req_license_key := Some example_key\<rparr>) = Some (generate_license_key example_rnd)
   \<and> four_digit_year (strftime (midnight_clock 1))
   \<and> strftime (noon_clock 0) = strftime (midnight_clock 1)
   \<and> strftime (noon_clock 0) * usec_per_day < noon_clock 0
   \<and> fst (validate_license (issued_db 0 1 midnight_clock) (example_request\<lparr>req_license_key := Some example_key\<rparr>) noon_clock) =
       ([(''valid'', JBool False), (''message'', JStr ''License has expired''), (''expires'', JDate 739252)], 200)"
proof -
  have d: "issued_db 0 1 midnight_clock = \<lparr>licenses = [issued_row 0 1 midnight_clock], validation_logs = [], log_seq = 0\<rparr>"
    by (simp add: issued_midnight sqlite_int_def)
  have a1: "normalized_key example_request \<noteq> []"
    by (simp add: example_request_key example_key_nonempty)
  have a2: "select_license (issued_db 0 1 midnight_clock) (normalized_key example_request) = Some (issued_row 0 1 midnight_clock)"
    by (simp add: example_request_key issued_select [OF d])
  have a3: "strptime (expiry_date (issued_row 0 1 midnight_clock)) = Inr (739252 * usec_per_day)"
    by (simp add: issued_expiry strptime_def four_digit_year_def)
  have a4: "739252 * usec_per_day < noon_clock 0"
    by (simp add: noon_clock_def)
  have e: "expiry_date (issued_row 0 1 midnight_clock) = 739252"
    by (simp add: issued_expiry)
  have b1: "Some ''change-me-in-production'' = Some (ADMIN_API_KEY None)"
    by (simp add: ADMIN_API_KEY_def get_default_def)
  have b2: "strip (get_default (req_email (example_generate 0 1)) '''') \<noteq> []"
    by (simp add: example_email)
  have b3: "req_duration_days (example_generate 0 1) = Some 0"
    by (simp add: example_generate_def)
  have b3': "sqlite_int (get_default (req_max_activations (example_generate 0 1)) 1)"
    by (simp add: example_generate_def get_default_def sqlite_int_def)
  have b4: "generate_license_key example_rnd \<notin> set (map license_key (licenses init_db))"
    by (simp add: init_db_def)
  have b5: "req_license_key (example_request\<lparr>req_license_key := Some example_key\<rparr>) = Some (generate_license_key example_rnd)"
    by (simp add: example_rnd_key)
  have s1: "strftime (midnight_clock 1) = 739252" and s0: "strftime (noon_clock 0) = 739252"
    by (simp_all add: strftime_def noon_clock_def midnight_clock_def usec_per_day_def)
  have b6: "four_digit_year (strftime (midnight_clock 1))"
    by (simp add: four_digit_year_def strftime_def midnight_clock_def usec_per_day_def)
  have b7: "strftime (noon_clock 0) = strftime (midnight_clock 1)"
    by (simp add: strftime_def noon_clock_def midnight_clock_def usec_per_day_def)
  have b8: "strftime (noon_clock 0) * usec_per_day < noon_clock 0"
    by (simp add: strftime_def noon_clock_def usec_per_day_def)
  note t = validate_expiry_boundary [where req = example_request and db = "issued_db 0 1 midnight_clock"
      and row = "issued_row 0 1 midnight_clock" and now = noon_clock and expiry = "739252 * usec_per_day"]
  from t a1 a2 a3 a4 have r1: "fst (validate_license (issued_db 0 1 midnight_clock) example_request noon_clock) =
       ([(''valid'', JBool False), (''message'', JStr ''License has expired''), (''expires'', JDate (expiry_date (issued_row 0 1 midnight_clock)))], 200)"
    by blast
  note u = validate_expiry_boundary [where req = "example_request\<lparr>req_license_key := Some example_key\<rparr>" and db = init_db
      and now = noon_clock and api_key = "Some ''change-me-in-production''" and env = None
      and data = "example_generate 0 1" and rnd = example_rnd and issue_now = midnight_clock]
  from u b1 b2 b3 b3' b4 b5 b6 b7 b8
  have r2: "fst (validate_license (snd (generate_license None (Some ''change-me-in-production'') init_db
                (example_generate 0 1) example_rnd midnight_clock))
              (example_request\<lparr>req_license_key := Some example_key\<rparr>) noon_clock) =
       ([(''valid'', JBool False), (''message'', JStr ''License has expired''),
         (''expires'', JDate (strftime (midnight_clock 1)))], 200)"
    by blast
  from r1 have r1': "fst (validate_license (issued_db 0 1 midnight_clock) example_request noon_clock) =
       ([(''valid'', JBool False), (''message'', JStr ''License has expired''), (''expires'', JDate 739252)], 200)"
    by (simp only: e)
  from r2 have r2': "fst (validate_license (issued_db 0 1 midnight_clock) (example_request\<lparr>req_license_key := Some example_key\<rparr>) noon_clock) =
       ([(''valid'', JBool False), (''message'', JStr ''License has expired''), (''expires'', JDate 739252)], 200)"
    by (simp only: issued_db_def [symmetric] s1)
  from a1 a2 a3 a4 r1' b1 b2 b3 b3' b4 b5 b6 b7 b8 r2' show ?thesis
    by blast
qed

text \<open>
  C7 as stated fails at the first instant of the day: for the license issued with
  \<open>duration_days = 0\<close> and validated when the clock reads exactly midnight of that day, the
  expiry is not strictly before the clock, and the answer is \<^verbatim>\<open>valid: true\<close> with a
  \<^verbatim>\<open>SUCCESS\<close> log entry.
\<close>

theorem same_day_midnight_counterexample:
  "created_date (issued_row 0 1 midnight_clock) = strftime (midnight_clock 0)
   \<and> expiry_date (issued_row 0 1 midnight_clock) = strftime (midnight_clock 0)
   \<and> strptime (expiry_date (issued_row 0 1 midnight_clock)) = Inr (midnight_clock 0)
   \<and> fst (validate_license (issued_db 0 1 midnight_clock) example_request midnight_clock) =
       ([(''valid'', JBool True), (''expires'', JDate 739252), (''status'', JStr ''active''),
         (''product'', JStr ''NGC_EA''), (''message'', JStr ''License valid''),
         (''days_remaining'', JInt 0)], 200)
   \<and> map result (validation_logs (snd (validate_license (issued_db 0 1 midnight_clock) example_request midnight_clock)))
       = [''SUCCESS'']"
proof -
  have d: "issued_db 0 1 midnight_clock = \<lparr>licenses = [issued_row 0 1 midnight_clock], validation_logs = [], log_seq = 0\<rparr>"
    by (simp add: issued_midnight sqlite_int_def)
  have a: "created_date (issued_row 0 1 midnight_clock) = strftime (midnight_clock 0)"
    "expiry_date (issued_row 0 1 midnight_clock) = strftime (midnight_clock 0)"
    by (simp_all add: issued_row_def midnight_clock_def)
  have p: "strptime (expiry_date (issued_row 0 1 midnight_clock)) = Inr (midnight_clock 0)"
    by (simp add: issued_expiry strptime_def four_digit_year_def midnight_clock_def)
  have "validate_license (issued_db 0 1 midnight_clock) example_request midnight_clock =
      (([(''valid'', JBool True), (''expires'', JDate 739252), (''status'', JStr ''active''),
         (''product'', JStr ''NGC_EA''), (''message'', JStr ''License valid''),
         (''days_remaining'', JInt 0)], 200),
       insert_log (update_last_validated (issued_db 0 1 midnight_clock) example_key (midnight_clock 1))
         example_key (midnight_clock 2) (Some ''10.0.0.1'') ''SUCCESS'')"
    using issued_select [OF d] p
    by (simp add: validate_license_def example_request_key [unfolded normalized_key_def]
      Let_def example_key_nonempty)
      (simp add: issued_row_def strftime_def midnight_clock_def usec_per_day_def td_days_def
        example_request_def)
  then have "fst (validate_license (issued_db 0 1 midnight_clock) example_request midnight_clock) =
       ([(''valid'', JBool True), (''expires'', JDate 739252), (''status'', JStr ''active''),
         (''product'', JStr ''NGC_EA''), (''message'', JStr ''License valid''),
         (''days_remaining'', JInt 0)], 200)"
    and "map result (validation_logs (snd (validate_license (issued_db 0 1 midnight_clock) example_request midnight_clock)))
       = [''SUCCESS'']"
    by (simp_all add: insert_log_def update_last_validated_def d)
  with a p show ?thesis by blast
qed

text \<open>
  C8, as amended. \<^verbatim>\<open>/check\<close> leaves the database as it is. For a key that is absent the
  answer is \<^verbatim>\<open>found: false\<close>. For a license that is present and whose stored expiry date
  parses, the status shown is \<^verbatim>\<open>expired\<close> when midnight of the expiry day is before the
  clock and the stored status otherwise, the stored row is unchanged, and \<open>days_remaining\<close>
  is the whole days left or 0, never negative. For a license that is present and whose
  stored expiry date \<^verbatim>\<open>strptime\<close> cannot parse, the answer is \<^verbatim>\<open>found: false\<close> with
  status 500.
\<close>

theorem check_license_read_only:
  "snd (check_license db key now) = db
   \<and> (select_license db (upper (strip key)) = None \<longrightarrow>
        fst (check_license db key now) =
          ([(''found'', JBool False), (''message'', JStr ''License not found'')], 200))
   \<and> (\<forall>row. select_license db (upper (strip key)) = Some row \<and> \<not> four_digit_year (expiry_date row) \<longrightarrow>
        fst (check_license db key now) =
          ([(''found'', JBool False), (''message'', JStr ''Error checking license'')], 500))
   \<and> (\<forall>row expiry. select_license db (upper (strip key)) = Some row
          \<and> strptime (expiry_date row) = Inr expiry \<longrightarrow>
        snd (fst (check_license db key now)) = 200
        \<and> map_of (fst (fst (check_license db key now))) ''found'' = Some (JBool True)
        \<and> map_of (fst (fst (check_license db key now))) ''status'' =
            Some (JStr (if expiry < now 0 then ''expired'' else status row))
        \<and> map_of (fst (fst (check_license db key now))) ''days_remaining'' =
            Some (JInt (max 0 (td_days (expiry - now 1))))
        \<and> 0 \<le> max 0 (td_days (expiry - now 1))
        \<and> select_license (snd (check_license db key now)) (upper (strip key)) = Some row)"
  by (simp add: check_license_def Let_def strptime_def split: option.split)

text \<open>
  The instance: a license issued at midnight of 2025-01-01 with \<open>duration_days = 0\<close>,
  checked at noon: shown as expired with 0 days remaining, stored as active.
\<close>

theorem check_license_read_only_witness:
  "select_license (issued_db 0 1 midnight_clock) (upper (strip ''ngc-ab0f-ab0f-ab0f-ab0f'')) =
     Some (issued_row 0 1 midnight_clock)
   \<and> strptime (expiry_date (issued_row 0 1 midnight_clock)) = Inr (739252 * usec_per_day)
   \<and> 739252 * usec_per_day < noon_clock 0
   \<and> map_of (fst (fst (check_license (issued_db 0 1 midnight_clock) ''ngc-ab0f-ab0f-ab0f-ab0f'' noon_clock))) ''status'' =
       Some (JStr ''expired'')
   \<and> map_of (fst (fst (check_license (issued_db 0 1 midnight_clock) ''ngc-ab0f-ab0f-ab0f-ab0f'' noon_clock))) ''days_remaining'' =
       Some (JInt 0)
   \<and> map status (licenses (snd (check_license (issued_db 0 1 midnight_clock) ''ngc-ab0f-ab0f-ab0f-ab0f'' noon_clock))) =
       [''active'']"
proof -
  have d: "issued_db 0 1 midnight_clock = \<lparr>licenses = [issued_row 0 1 midnight_clock], validation_logs = [], log_seq = 0\<rparr>"
    by (simp add: issued_midnight sqlite_int_def)
  have k: "upper (strip ''ngc-ab0f-ab0f-ab0f-ab0f'') = example_key"
    by code_simp
  have h1: "select_license (issued_db 0 1 midnight_clock) (upper (strip ''ngc-ab0f-ab0f-ab0f-ab0f'')) =
     Some (issued_row 0 1 midnight_clock)"
    by (simp add: k issued_select [OF d])
  have h2: "strptime (expiry_date (issued_row 0 1 midnight_clock)) = Inr (739252 * usec_per_day)"
    by (simp add: issued_expiry strptime_def four_digit_year_def)
  have h3: "739252 * usec_per_day < noon_clock 0"
    by (simp add: noon_clock_def)
  have s: "map status (licenses (issued_db 0 1 midnight_clock)) = [''active'']"
    by (simp add: d issued_row_def)
  from check_license_read_only [of "issued_db 0 1 midnight_clock" "''ngc-ab0f-ab0f-ab0f-ab0f''" noon_clock]
  have t1: "snd (check_license (issued_db 0 1 midnight_clock) ''ngc-ab0f-ab0f-ab0f-ab0f'' noon_clock) =
              issued_db 0 1 midnight_clock"
    and t2: "\<forall>row expiry. select_license (issued_db 0 1 midnight_clock) (upper (strip ''ngc-ab0f-ab0f-ab0f-ab0f'')) = Some row
          \<and> strptime (expiry_date row) = Inr expiry \<longrightarrow>
        snd (fst (check_license (issued_db 0 1 midnight_clock) ''ngc-ab0f-ab0f-ab0f-ab0f'' noon_clock)) = 200
        \<and> map_of (fst (fst (check_license (issued_db 0 1 midnight_clock) ''ngc-ab0f-ab0f-ab0f-ab0f'' noon_clock))) ''found'' = Some (JBool True)
        \<and> map_of (fst (fst (check_license (issued_db 0 1 midnight_clock) ''ngc-ab0f-ab0f-ab0f-ab0f'' noon_clock))) ''status'' =
            Some (JStr (if expiry < noon_clock 0 then ''expired'' else status row))
        \<and> map_of (fst (fst (check_license (issued_db 0 1 midnight_clock) ''ngc-ab0f-ab0f-ab0f-ab0f'' noon_clock))) ''days_remaining'' =
            Some (JInt (max 0 (td_days (expiry - noon_clock 1))))
        \<and> 0 \<le> max 0 (td_days (expiry - noon_clock 1))
        \<and> select_license (snd (check_license (issued_db 0 1 midnight_clock) ''ngc-ab0f-ab0f-ab0f-ab0f'' noon_clock)) (upper (strip ''ngc-ab0f-ab0f-ab0f-ab0f'')) = Some row"
    by blast+
  from t2 [rule_format, of "issued_row 0 1 midnight_clock" "739252 * usec_per_day"] h1 h2 h3
  have "map_of (fst (fst (check_license (issued_db 0 1 midnight_clock) ''ngc-ab0f-ab0f-ab0f-ab0f'' noon_clock))) ''status'' =
       Some (JStr ''expired'')"
    and "map_of (fst (fst (check_license (issued_db 0 1 midnight_clock) ''ngc-ab0f-ab0f-ab0f-ab0f'' noon_clock))) ''days_remaining'' =
       Some (JInt 0)"
    by (simp_all add: noon_clock_def usec_per_day_def td_days_def)
  moreover from t1 s have "map status (licenses (snd (check_license (issued_db 0 1 midnight_clock) ''ngc-ab0f-ab0f-ab0f-ab0f'' noon_clock))) =
       [''active'']"
    by simp
  ultimately show ?thesis using h1 h2 h3 by blast
qed

text \<open>
  C8 as stated fails on the license issued with \<open>duration_days = -400000\<close>: it is
  present, its expiry day 339252 (929-11-03) has passed, and the answer is not a view with
  status \<^verbatim>\<open>expired\<close> but \<^verbatim>\<open>found: false\<close> with status 500.
\<close>

theorem check_unparsed_expiry_counterexample:
  "select_license (issued_db (- 400000) 1 noon_clock) (upper (strip ''ngc-ab0f-ab0f-ab0f-ab0f'')) =
     Some (issued_row (- 400000) 1 noon_clock)
   \<and> expiry_date (issued_row (- 400000) 1 noon_clock) = 339252
   \<and> 339252 * usec_per_day < noon_clock 0
   \<and> status (issued_row (- 400000) 1 noon_clock) = ''active''
   \<and> fst (check_license (issued_db (- 400000) 1 noon_clock) ''ngc-ab0f-ab0f-ab0f-ab0f'' noon_clock) =
       ([(''found'', JBool False), (''message'', JStr ''Error checking license'')], 500)"
proof -
  have d: "issued_db (- 400000) 1 noon_clock =
      \<lparr>licenses = [issued_row (- 400000) 1 noon_clock], validation_logs = [], log_seq = 0\<rparr>"
    by (simp add: issued_noon sqlite_int_def)
  have k: "upper (strip ''ngc-ab0f-ab0f-ab0f-ab0f'') = example_key"
    by code_simp
  have h1: "select_license (issued_db (- 400000) 1 noon_clock) (upper (strip ''ngc-ab0f-ab0f-ab0f-ab0f'')) =
     Some (issued_row (- 400000) 1 noon_clock)"
    by (simp add: k issued_select [OF d])
  have h2: "expiry_date (issued_row (- 400000) 1 noon_clock) = 339252"
    by (simp add: issued_expiry)
  have h3: "339252 * usec_per_day < noon_clock 0"
    by (simp add: noon_clock_def usec_per_day_def)
  have h4: "status (issued_row (- 400000) 1 noon_clock) = ''active''"
    by (simp add: issued_row_def)
  have "fst (check_license (issued_db (- 400000) 1 noon_clock) ''ngc-ab0f-ab0f-ab0f-ab0f'' noon_clock) =
       ([(''found'', JBool False), (''message'', JStr ''Error checking license'')], 500)"
    using h1 h2 by (simp add: check_license_def Let_def strptime_def four_digit_year_def)
  with h1 h2 h3 h4 show ?thesis by blast
qed

text \<open>
  C9. \<^verbatim>\<open>/activate\<close> never writes to the validation log: on every branch the relation
  \<^verbatim>\<open>validation_logs\<close> and its sequence number are what they were before the call.
\<close>

theorem activate_leaves_log:
  "validation_logs (snd (activate_license db req)) = validation_logs db
   \<and> log_seq (snd (activate_license db req)) = log_seq db"
  by (simp add: activate_license_def activate_read_def activate_write_def increment_activations_def Let_def
      split: option.split)

text \<open>
  The instance: an activation that increments the count.
\<close>

theorem activate_leaves_log_witness:
  "validation_logs (snd (activate_license (issued_db 30 1 noon_clock) example_request)) = []"
  using activate_leaves_log [of "issued_db 30 1 noon_clock" example_request]
  by (simp add: issued_noon sqlite_int_def)

text \<open>
  C10. The answer of \<^verbatim>\<open>/validate\<close> and of \<^verbatim>\<open>/activate\<close> and the database they leave do not
  depend on the field \<^verbatim>\<open>account_number\<close> of the request: two requests that differ only there
  give the same result on the same database and clock.
\<close>

theorem account_number_unused:
  "validate_license db (req\<lparr>req_account_number := a\<rparr>) now =
     validate_license db (req\<lparr>req_account_number := b\<rparr>) now
   \<and> activate_license db (req\<lparr>req_account_number := a\<rparr>) =
     activate_license db (req\<lparr>req_account_number := b\<rparr>)"
  by (simp add: validate_license_def activate_license_def activate_read_def Let_def)

text \<open>
  The instance: a request with an account number and the same request without one.
\<close>

theorem account_number_unused_witness:
  "validate_license (issued_db 30 1 noon_clock) example_request noon_clock =
     validate_license (issued_db 30 1 noon_clock) (example_request\<lparr>req_account_number := None\<rparr>) noon_clock
   \<and> activate_license (issued_db 30 1 noon_clock) example_request =
     activate_license (issued_db 30 1 noon_clock) (example_request\<lparr>req_account_number := None\<rparr>)"
  using account_number_unused [where db = "issued_db 30 1 noon_clock" and req = example_request
      and a = "Some ''12345678''" and b = None and now = noon_clock]
  by (simp add: example_request_def)

end
